theory Spec2Isabelle
  imports Main "HOL-Library.Word" "HOL-Library.Signed_Division"
begin

section \<open>msg2api: the websocket API of mysmartgrid2 (Device API and User API)\<close>

text \<open>
  A shallow embedding of \<^verbatim>\<open>api_base.go\<close>, the device server
  (\<^verbatim>\<open>DeviceServer\<close>: \<^verbatim>\<open>authenticate\<close>, \<^verbatim>\<open>Run\<close>,
  \<^verbatim>\<open>doUpdate\<close>, \<^verbatim>\<open>doAddSensor\<close>, \<^verbatim>\<open>doRemoveSensor\<close>,
  \<^verbatim>\<open>doUpdateMetadata\<close>) and the user server (\<^verbatim>\<open>UserServer\<close>:
  \<^verbatim>\<open>Run\<close>, \<^verbatim>\<open>doGetValues\<close>).

  Go strings and byte slices are \<open>string\<close> (lists of 8-bit characters). A Go
  \<^verbatim>\<open>error\<close> result is \<open>go_error option\<close> (\<open>None\<close> is \<^verbatim>\<open>nil\<close>), a
  \<^verbatim>\<open>*Error\<close> result is \<open>Error option\<close>. The values of \<^verbatim>\<open>int64\<close>
  that occur (clock readings, milliseconds) are \<open>int\<close>; no operation on them can
  overflow. A \<^verbatim>\<open>float64\<close> is its 64-bit pattern: the dispatcher passes it
  through, and the one place that computes with it takes the arithmetic as a parameter.
\<close>

subsection \<open>Errors\<close>

text \<open>
  Go \<^verbatim>\<open>error\<close> values: the two package-level errors of the source, the two
  errors of \<^verbatim>\<open>encoding/hex\<close>, and every other error (transport, JSON, entropy
  source, delegate), which is known by its text only.
\<close>

datatype go_error =
    errProtocolNegotiationFailed
  | errAuthenticationFailed
  | ErrLength
  | InvalidByteError char
  | ForeignError string

definition strconv_IsPrint :: "nat \<Rightarrow> bool" where
  "strconv_IsPrint r = ((32 \<le> r \<and> r < 127) \<or> (161 \<le> r \<and> r \<le> 255 \<and> r \<noteq> 173))"

definition utf8_EncodeRune :: "nat \<Rightarrow> string" where
  "utf8_EncodeRune r =
     (if r < 128 then [char_of r] else [char_of (192 + r div 64), char_of (128 + r mod 64)])"

definition upperhex :: string where
  "upperhex = ''0123456789ABCDEF''"

text \<open>The verb \<^verbatim>\<open>%#U\<close> of \<^verbatim>\<open>fmt\<close> on the rune of one byte.\<close>

definition fmt_sharp_U :: "char \<Rightarrow> string" where
  "fmt_sharp_U c =
     (let r = (of_char c :: nat) in
        ''U+00'' @ [upperhex ! (r div 16), upperhex ! (r mod 16)] @
        (if strconv_IsPrint r then '' '' @ [CHR 0x27] @ utf8_EncodeRune r @ [CHR 0x27] else []))"

text \<open>The method \<^verbatim>\<open>err.Error()\<close>.\<close>

fun err_Error :: "go_error \<Rightarrow> string" where
  "err_Error errProtocolNegotiationFailed = ''protocol negotiation failed''"
| "err_Error errAuthenticationFailed = ''authentication failed''"
| "err_Error ErrLength = ''encoding/hex: odd length hex string''"
| "err_Error (InvalidByteError c) = ''encoding/hex: invalid byte: '' @ fmt_sharp_U c"
| "err_Error (ForeignError txt) = txt"

text \<open>
  Modelled from the spec: the type \<^verbatim>\<open>Error\<close> and its constructors
  \<^verbatim>\<open>badCommand\<close>, \<^verbatim>\<open>invalidInput\<close> and \<^verbatim>\<open>operationFailed\<close> are
  declared in a file of the package that is not among the sources. The spec gives the
  error value as \<open>{kind, message}\<close> with the kinds below, and writes the constructors
  \<open>BadCommand(command)\<close>, \<open>InvalidInput(reason)\<close>, \<open>OperationFailed(message)\<close>.
  The second argument of \<^verbatim>\<open>invalidInput\<close> is the empty string at each of its calls.
\<close>

datatype ErrorKind = BadCommand | InvalidInput | OperationFailed | AuthenticationFailed

record Error =
  kind :: ErrorKind
  message :: string

definition badCommand :: "string \<Rightarrow> Error" where
  "badCommand cmd = \<lparr>kind = BadCommand, message = cmd\<rparr>"

definition invalidInput :: "string \<Rightarrow> string \<Rightarrow> Error" where
  "invalidInput reason extra = \<lparr>kind = InvalidInput, message = reason\<rparr>"

definition operationFailed :: "string \<Rightarrow> Error" where
  "operationFailed msg = \<lparr>kind = OperationFailed, message = msg\<rparr>"

subsection \<open>Envelopes and command arguments\<close>

text \<open>
  Modelled from the spec: \<^verbatim>\<open>MessageIn\<close>, \<^verbatim>\<open>MessageOut\<close> and the argument
  structs are declared outside the sources. The inbound envelope is
  \<open>{command, args}\<close> with \<open>args\<close> kept raw until a command decodes it; the outbound
  envelope has the fields the source sets: \<^verbatim>\<open>Command\<close>, \<^verbatim>\<open>Args\<close>,
  \<^verbatim>\<open>Now\<close> and \<^verbatim>\<open>Error\<close> (\<open>None\<close> where the Go field is left at its zero
  value). The argument shapes are those of the spec's command table.
\<close>

record MessageIn =
  Command :: string
  Args :: string

record MessageOut =
  out_Command :: string
  out_Args :: "string option"
  Now :: "int option"
  Error :: "Error option"

definition MessageOut_zero :: MessageOut where
  "MessageOut_zero = \<lparr>out_Command = [], out_Args = None, Now = None, Error = None\<rparr>"

text \<open>
  The two replies of the dispatch loops, \<^verbatim>\<open>MessageOut{Error: opError}\<close> and
  \<^verbatim>\<open>MessageOut{Now: &now}\<close>.
\<close>

definition error_reply :: "Error \<Rightarrow> MessageOut" where
  "error_reply e = MessageOut_zero\<lparr>Error := Some e\<rparr>"

definition now_reply :: "int \<Rightarrow> MessageOut" where
  "now_reply now = MessageOut_zero\<lparr>Now := Some now\<rparr>"

type_synonym float64 = "64 word"

record Measurement =
  timestamp :: int
  val :: float64

record DeviceCmdUpdateArgs =
  Values :: "string \<rightharpoonup> Measurement list"

record DeviceCmdAddSensorArgs =
  Name :: string
  Unit :: string
  Port :: int
  Factor :: float64

record DeviceCmdRemoveSensorArgs =
  rm_Name :: string

record UserCmdGetValuesArgs =
  SinceUnixMs :: float64
  WithMetadata :: bool

subsection \<open>\<^verbatim>\<open>encoding/hex\<close>\<close>

definition hextable :: string where
  "hextable = ''0123456789abcdef''"

fun hex_EncodeToString :: "string \<Rightarrow> string" where
  "hex_EncodeToString [] = []"
| "hex_EncodeToString (v # vs) =
     hextable ! ((of_char v :: nat) div 16) # hextable ! ((of_char v :: nat) mod 16) #
     hex_EncodeToString vs"

definition fromHexChar :: "char \<Rightarrow> nat option" where
  "fromHexChar c =
     (let n = (of_char c :: nat) in
        if 48 \<le> n \<and> n \<le> 57 then Some (n - 48)
        else if 97 \<le> n \<and> n \<le> 102 then Some (n - 97 + 10)
        else if 65 \<le> n \<and> n \<le> 70 then Some (n - 65 + 10)
        else None)"

text \<open>
  \<^verbatim>\<open>hex.DecodeString\<close>: two digits a byte, either case; the first invalid
  character is reported, an odd length after that (early releases of the library
  report the odd length first; the input is refused either way).
\<close>

fun hex_DecodeString :: "string \<Rightarrow> go_error + string" where
  "hex_DecodeString [] = Inr []"
| "hex_DecodeString [p] =
     (case fromHexChar p of None \<Rightarrow> Inl (InvalidByteError p) | Some a \<Rightarrow> Inl ErrLength)"
| "hex_DecodeString (p # q # rest) =
     (case fromHexChar p of
        None \<Rightarrow> Inl (InvalidByteError p)
      | Some a \<Rightarrow>
          (case fromHexChar q of
             None \<Rightarrow> Inl (InvalidByteError q)
           | Some b \<Rightarrow>
               (case hex_DecodeString rest of
                  Inl e \<Rightarrow> Inl e
                | Inr bs \<Rightarrow> Inr (char_of (a * 16 + b) # bs))))"

subsection \<open>Services outside the package\<close>

text \<open>
  The standard library and the delegates' types that the sources only use:
  \<^verbatim>\<open>json.Unmarshal\<close> at each argument type (and at \<^verbatim>\<open>MessageIn\<close>, inside
  \<^verbatim>\<open>ReceiveJSON\<close>), HMAC-SHA-256 (\<^verbatim>\<open>hmac.New(sha256.New, key)\<close>,
  \<^verbatim>\<open>Write\<close>, \<^verbatim>\<open>Sum(nil)\<close>), and the two conversions
  \<^verbatim>\<open>int64(x/1000)\<close> and \<^verbatim>\<open>int64(x)\<close> of a \<^verbatim>\<open>float64\<close>.
  \<open>'m\<close> is the type \<^verbatim>\<open>DeviceMetadata\<close>.
\<close>

record 'm services =
  unmarshalMessageIn :: "string \<Rightarrow> go_error + MessageIn"
  unmarshalUpdateArgs :: "string \<Rightarrow> go_error + DeviceCmdUpdateArgs"
  unmarshalAddSensorArgs :: "string \<Rightarrow> go_error + DeviceCmdAddSensorArgs"
  unmarshalRemoveSensorArgs :: "string \<Rightarrow> go_error + DeviceCmdRemoveSensorArgs"
  unmarshalDeviceMetadata :: "string \<Rightarrow> go_error + 'm"
  unmarshalGetValuesArgs :: "string \<Rightarrow> go_error + UserCmdGetValuesArgs"
  hmac_sha256 :: "string \<Rightarrow> string \<Rightarrow> string"
  int64_div1000 :: "float64 \<Rightarrow> int"
  int64_of_float :: "float64 \<Rightarrow> int"

text \<open>\<^verbatim>\<open>hmac.Equal\<close>: equality of the two byte slices, computed in constant time.\<close>

definition hmac_Equal :: "string \<Rightarrow> string \<Rightarrow> bool" where
  "hmac_Equal mac1 mac2 = (mac1 = mac2)"

subsection \<open>The connection and its environment\<close>

text \<open>
  Modelled from the spec: \<^verbatim>\<open>socketWrapper\<close> (\<^verbatim>\<open>Write\<close>,
  \<^verbatim>\<open>Receive\<close>, \<^verbatim>\<open>WriteJSON\<close>, \<^verbatim>\<open>ReceiveJSON\<close>,
  \<^verbatim>\<open>Close\<close>) is declared outside the sources. The spec gives the transport
  as ordered message send and receive, typed send and receive, and a framed close
  with a code and a reason: \<open>send(text)\<close>, \<open>receive() -> bytes|error\<close>,
  \<open>sendTyped(value)\<close>, \<open>receiveTyped() -> value|error\<close>, \<open>close(code, reason)\<close>.

  The state of one connection: what the successive receives will deliver
  (\<open>inbox\<close>), what the successive writes will return (\<open>wresults\<close>, success once
  it is used up), everything the server has written or tried to write so far, in
  order (\<open>outbox\<close>), the outcome of \<^verbatim>\<open>rand.Read\<close> on the challenge buffer
  (\<open>entropy\<close>; 32 bytes in the program, of any length here), the readings of \<^verbatim>\<open>time.Now().UnixNano()\<close> (\<open>clock\<close> at the
  number of readings taken, \<open>ticks\<close>), and the state behind the delegates
  (\<open>app\<close>). A receive on an exhausted inbox blocks for ever.
\<close>

datatype wire_event =
    WriteText string
  | WriteJSON MessageOut
  | CloseFrame nat string

record 's world =
  inbox :: "(go_error + string) list"
  wresults :: "go_error option list"
  outbox :: "wire_event list"
  entropy :: "go_error + string"
  clock :: "nat \<Rightarrow> int"
  ticks :: nat
  app :: 's

datatype ('r, 'w) outcome = Returned 'r 'w | Blocked 'w

definition CloseGoingAway :: nat where
  "CloseGoingAway = 1001"

definition CloseProtocolError :: nat where
  "CloseProtocolError = 1002"

definition write_result :: "'s world \<Rightarrow> go_error option" where
  "write_result w = (case wresults w of [] \<Rightarrow> None | r # rs \<Rightarrow> r)"

definition socket_Write :: "string \<Rightarrow> 's world \<Rightarrow> go_error option \<times> 's world" where
  "socket_Write msg w =
     (write_result w, w\<lparr>wresults := tl (wresults w), outbox := outbox w @ [WriteText msg]\<rparr>)"

definition socket_WriteJSON :: "MessageOut \<Rightarrow> 's world \<Rightarrow> go_error option \<times> 's world" where
  "socket_WriteJSON msg w =
     (write_result w, w\<lparr>wresults := tl (wresults w), outbox := outbox w @ [WriteJSON msg]\<rparr>)"

definition socket_Receive :: "'s world \<Rightarrow> ((go_error + string) \<times> 's world) option" where
  "socket_Receive w =
     (case inbox w of [] \<Rightarrow> None | r # rs \<Rightarrow> Some (r, w\<lparr>inbox := rs\<rparr>))"

definition socket_ReceiveJSON ::
  "'m services \<Rightarrow> 's world \<Rightarrow> ((go_error + MessageIn) \<times> 's world) option" where
  "socket_ReceiveJSON lib w =
     (case socket_Receive w of
        None \<Rightarrow> None
      | Some (Inl err, w') \<Rightarrow> Some (Inl err, w')
      | Some (Inr raw, w') \<Rightarrow> Some (unmarshalMessageIn lib raw, w'))"

definition socket_Close :: "nat \<Rightarrow> string \<Rightarrow> 's world \<Rightarrow> 's world" where
  "socket_Close code reason w = w\<lparr>outbox := outbox w @ [CloseFrame code reason]\<rparr>"

text \<open>\<^verbatim>\<open>apiBase.Close\<close>.\<close>

definition apiBase_Close :: "'s world \<Rightarrow> 's world" where
  "apiBase_Close w = socket_Close CloseGoingAway [] w"

definition rand_Read :: "'s world \<Rightarrow> go_error + string" where
  "rand_Read w = entropy w"

definition time_Now_UnixNano :: "'s world \<Rightarrow> int \<times> 's world" where
  "time_Now_UnixNano w = (clock w (ticks w), w\<lparr>ticks := Suc (ticks w)\<rparr>)"

subsection \<open>The device server\<close>

text \<open>
  The delegates of \<^verbatim>\<open>DeviceServer\<close>: function-valued fields, \<open>None\<close> when
  the field is \<^verbatim>\<open>nil\<close>. A delegate reads and changes the application state and
  returns a \<^verbatim>\<open>*Error\<close>.
\<close>

record ('m, 's) DeviceServer =
  Update :: "((string \<rightharpoonup> Measurement list) \<Rightarrow> 's \<Rightarrow> Error option \<times> 's) option"
  AddSensor :: "(string \<Rightarrow> string \<Rightarrow> int \<Rightarrow> float64 \<Rightarrow> 's \<Rightarrow> Error option \<times> 's) option"
  RemoveSensor :: "(string \<Rightarrow> 's \<Rightarrow> Error option \<times> 's) option"
  UpdateMetadata :: "('m \<Rightarrow> 's \<Rightarrow> Error option \<times> 's) option"

definition call_delegate :: "('s \<Rightarrow> Error option \<times> 's) \<Rightarrow> 's world \<Rightarrow> Error option \<times> 's world" where
  "call_delegate f w = (case f (app w) of (r, s') \<Rightarrow> (r, w\<lparr>app := s'\<rparr>))"

definition authenticate ::
  "'m services \<Rightarrow> string \<Rightarrow> 's world \<Rightarrow> (go_error option, 's world) outcome" where
  "authenticate lib key w =
     (case rand_Read w of
        Inl err \<Rightarrow> Returned (Some err) w
      | Inr buf \<Rightarrow>
          (let challenge = hex_EncodeToString buf;
               w1 = snd (socket_Write challenge w)
           in case socket_Receive w1 of
                None \<Rightarrow> Blocked w1
              | Some (Inl err, w2) \<Rightarrow> Returned (Some err) w2
              | Some (Inr msgRaw, w2) \<Rightarrow>
                  (case hex_DecodeString msgRaw of
                     Inl err \<Rightarrow> Returned (Some err) w2
                   | Inr msg \<Rightarrow>
                       (let expected = hmac_sha256 lib key buf in
                          if \<not> hmac_Equal msg expected
                          then Returned (Some errAuthenticationFailed) w2
                          else (case socket_Write ''proceed'' w2 of
                                  (r, w3) \<Rightarrow> Returned r w3)))))"

definition doUpdate ::
  "'m services \<Rightarrow> ('m, 's) DeviceServer \<Rightarrow> MessageIn \<Rightarrow> 's world \<Rightarrow> Error option \<times> 's world" where
  "doUpdate lib d msg w =
     (case unmarshalUpdateArgs lib (Args msg) of
        Inl err \<Rightarrow> (Some (invalidInput (err_Error err) []), w)
      | Inr args \<Rightarrow>
          (case Update d of
             None \<Rightarrow> (Some (operationFailed ''not supported''), w)
           | Some f \<Rightarrow> call_delegate (f (Values args)) w))"

definition doAddSensor ::
  "'m services \<Rightarrow> ('m, 's) DeviceServer \<Rightarrow> MessageIn \<Rightarrow> 's world \<Rightarrow> Error option \<times> 's world" where
  "doAddSensor lib d msg w =
     (case unmarshalAddSensorArgs lib (Args msg) of
        Inl err \<Rightarrow> (Some (invalidInput (err_Error err) []), w)
      | Inr args \<Rightarrow>
          (case AddSensor d of
             None \<Rightarrow> (Some (operationFailed ''not supported''), w)
           | Some f \<Rightarrow> call_delegate (f (Name args) (Unit args) (Port args) (Factor args)) w))"

definition doRemoveSensor ::
  "'m services \<Rightarrow> ('m, 's) DeviceServer \<Rightarrow> MessageIn \<Rightarrow> 's world \<Rightarrow> Error option \<times> 's world" where
  "doRemoveSensor lib d msg w =
     (case unmarshalRemoveSensorArgs lib (Args msg) of
        Inl err \<Rightarrow> (Some (invalidInput (err_Error err) []), w)
      | Inr args \<Rightarrow>
          (case RemoveSensor d of
             None \<Rightarrow> (Some (operationFailed ''not supported''), w)
           | Some f \<Rightarrow> call_delegate (f (rm_Name args)) w))"

definition doUpdateMetadata ::
  "'m services \<Rightarrow> ('m, 's) DeviceServer \<Rightarrow> MessageIn \<Rightarrow> 's world \<Rightarrow> Error option \<times> 's world" where
  "doUpdateMetadata lib d msg w =
     (case unmarshalDeviceMetadata lib (Args msg) of
        Inl err \<Rightarrow> (Some (invalidInput (err_Error err) []), w)
      | Inr args \<Rightarrow>
          (case UpdateMetadata d of
             None \<Rightarrow> (Some (operationFailed ''not supported''), w)
           | Some f \<Rightarrow> call_delegate (f args) w))"

text \<open>
  The \<^verbatim>\<open>switch\<close> of \<^verbatim>\<open>DeviceServer.Run\<close> on \<^verbatim>\<open>msg.Command\<close>.
\<close>

definition device_dispatch ::
  "'m services \<Rightarrow> ('m, 's) DeviceServer \<Rightarrow> MessageIn \<Rightarrow> 's world \<Rightarrow> Error option \<times> 's world" where
  "device_dispatch lib d msg w =
     (if Command msg = ''update'' then doUpdate lib d msg w
      else if Command msg = ''addSensor'' then doAddSensor lib d msg w
      else if Command msg = ''removeSensor'' then doRemoveSensor lib d msg w
      else if Command msg = ''updateMetadata'' then doUpdateMetadata lib d msg w
      else (Some (badCommand (Command msg)), w))"

text \<open>
  The rest of the loop body: the reply. The result of \<^verbatim>\<open>WriteJSON\<close> is
  dropped, as in the source.
\<close>

definition device_reply :: "Error option \<Rightarrow> 's world \<Rightarrow> 's world" where
  "device_reply opError w =
     (case opError of
        Some e \<Rightarrow> snd (socket_WriteJSON (error_reply e) w)
      | None \<Rightarrow>
          (case time_Now_UnixNano w of
             (ns, w1) \<Rightarrow>
               (let now = ns sdiv 1000000
                in snd (socket_WriteJSON (now_reply now) w1))))"

definition device_cycle ::
  "'m services \<Rightarrow> ('m, 's) DeviceServer \<Rightarrow> MessageIn \<Rightarrow> 's world \<Rightarrow> 's world" where
  "device_cycle lib d msg w =
     (case device_dispatch lib d msg w of (opError, w1) \<Rightarrow> device_reply opError w1)"

text \<open>The label \<^verbatim>\<open>fail\<close> of \<^verbatim>\<open>DeviceServer.Run\<close>.\<close>

definition run_fail :: "go_error \<Rightarrow> 's world \<Rightarrow> (go_error option, 's world) outcome" where
  "run_fail err w = Returned (Some err) (socket_Close CloseProtocolError (err_Error err) w)"

lemma inbox_call_delegate: "inbox (snd (call_delegate f w)) = inbox w"
  by (simp add: call_delegate_def split: prod.splits)

lemma inbox_device_dispatch: "inbox (snd (device_dispatch lib d msg w)) = inbox w"
  by (simp add: device_dispatch_def doUpdate_def doAddSensor_def doRemoveSensor_def
      doUpdateMetadata_def inbox_call_delegate split: sum.splits option.splits)

lemma inbox_device_reply: "inbox (device_reply r w) = inbox w"
  by (simp add: device_reply_def socket_WriteJSON_def time_Now_UnixNano_def Let_def
      split: option.splits)

lemma inbox_device_cycle: "inbox (device_cycle lib d msg w) = inbox w"
proof (cases "device_dispatch lib d msg w")
  case (Pair opError w1)
  with inbox_device_dispatch [of lib d msg w] have "inbox w1 = inbox w"
    by simp
  with Pair show ?thesis
    by (simp add: device_cycle_def inbox_device_reply)
qed

lemma socket_ReceiveJSON_inbox:
  "socket_ReceiveJSON lib w = Some (r, w') \<Longrightarrow> length (inbox w') < length (inbox w)"
  by (auto simp: socket_ReceiveJSON_def socket_Receive_def split: list.splits sum.splits)

text \<open>The \<^verbatim>\<open>for\<close> loop of \<^verbatim>\<open>DeviceServer.Run\<close>.\<close>

function device_loop ::
  "'m services \<Rightarrow> ('m, 's) DeviceServer \<Rightarrow> 's world \<Rightarrow> (go_error option, 's world) outcome" where
  "device_loop lib d w =
     (case socket_ReceiveJSON lib w of
        None \<Rightarrow> Blocked w
      | Some (r, w1) \<Rightarrow>
          (case r of
             Inl err \<Rightarrow> run_fail err w1
           | Inr msg \<Rightarrow> device_loop lib d (device_cycle lib d msg w1)))"
  by pat_completeness auto
termination
  by (relation "measure (\<lambda>(lib, d, w). length (inbox w))")
     (auto simp: inbox_device_cycle dest: socket_ReceiveJSON_inbox)

declare device_loop.simps [simp del]

definition DeviceServer_Run ::
  "'m services \<Rightarrow> ('m, 's) DeviceServer \<Rightarrow> string \<Rightarrow> 's world \<Rightarrow> (go_error option, 's world) outcome" where
  "DeviceServer_Run lib d key w =
     (case authenticate lib key w of
        Blocked w1 \<Rightarrow> Blocked w1
      | Returned (Some err) w1 \<Rightarrow> run_fail err w1
      | Returned None w1 \<Rightarrow> device_loop lib d w1)"

subsection \<open>The user server\<close>

text \<open>
  \<^verbatim>\<open>time.Unix(sec, nsec)\<close>, kept as the two arguments it is called with.
  The delegate of \<^verbatim>\<open>UserServer\<close> returns a Go \<^verbatim>\<open>error\<close>.
\<close>

datatype Time = time_Unix int int

record 's UserServer =
  GetValues :: "(Time \<Rightarrow> bool \<Rightarrow> 's \<Rightarrow> go_error option \<times> 's) option"

definition doGetValues ::
  "'m services \<Rightarrow> 's UserServer \<Rightarrow> MessageIn \<Rightarrow> 's world \<Rightarrow> Error option \<times> 's world" where
  "doGetValues lib u cmd w =
     (case unmarshalGetValuesArgs lib (Args cmd) of
        Inl err \<Rightarrow> (Some (operationFailed (err_Error err)), w)
      | Inr args \<Rightarrow>
          (case GetValues u of
             None \<Rightarrow> (Some (operationFailed ''not supported''), w)
           | Some f \<Rightarrow>
               (case f (time_Unix (int64_div1000 lib (SinceUnixMs args))
                          (int64_of_float lib (SinceUnixMs args) smod 1000 * 1000000))
                       (WithMetadata args) (app w) of
                  (Some err, s') \<Rightarrow> (Some (operationFailed (err_Error err)), w\<lparr>app := s'\<rparr>)
                | (None, s') \<Rightarrow> (None, w\<lparr>app := s'\<rparr>))))"

text \<open>
  The \<^verbatim>\<open>switch\<close> of \<^verbatim>\<open>UserServer.Run\<close>: the default case writes its
  reply itself and leaves \<^verbatim>\<open>opError\<close> at \<^verbatim>\<open>nil\<close>.
\<close>

definition user_dispatch ::
  "'m services \<Rightarrow> 's UserServer \<Rightarrow> MessageIn \<Rightarrow> 's world \<Rightarrow> Error option \<times> 's world" where
  "user_dispatch lib u msg w =
     (if Command msg = ''getValues'' then doGetValues lib u msg w
      else (None, snd (socket_WriteJSON (error_reply (badCommand (Command msg))) w)))"

definition user_reply :: "Error option \<Rightarrow> 's world \<Rightarrow> 's world" where
  "user_reply opError w =
     (case opError of
        Some e \<Rightarrow> snd (socket_WriteJSON (error_reply e) w)
      | None \<Rightarrow> w)"

definition user_cycle ::
  "'m services \<Rightarrow> 's UserServer \<Rightarrow> MessageIn \<Rightarrow> 's world \<Rightarrow> 's world" where
  "user_cycle lib u msg w =
     (case user_dispatch lib u msg w of (opError, w1) \<Rightarrow> user_reply opError w1)"

lemma inbox_user_dispatch: "inbox (snd (user_dispatch lib u msg w)) = inbox w"
  by (simp add: user_dispatch_def doGetValues_def socket_WriteJSON_def
      split: sum.splits option.splits prod.splits)

lemma inbox_user_reply: "inbox (user_reply r w) = inbox w"
  by (simp add: user_reply_def socket_WriteJSON_def split: option.splits)

lemma inbox_user_cycle: "inbox (user_cycle lib u msg w) = inbox w"
proof (cases "user_dispatch lib u msg w")
  case (Pair opError w1)
  with inbox_user_dispatch [of lib u msg w] have "inbox w1 = inbox w"
    by simp
  with Pair show ?thesis
    by (simp add: user_cycle_def inbox_user_reply)
qed

text \<open>
  \<^verbatim>\<open>UserServer.Run\<close>: the loop has no exit but the failed receive; the
  \<^verbatim>\<open>return nil\<close> after it is never reached.
\<close>

function UserServer_Run ::
  "'m services \<Rightarrow> 's UserServer \<Rightarrow> 's world \<Rightarrow> (go_error option, 's world) outcome" where
  "UserServer_Run lib u w =
     (case socket_ReceiveJSON lib w of
        None \<Rightarrow> Blocked w
      | Some (r, w1) \<Rightarrow>
          (case r of
             Inl err \<Rightarrow>
               Returned (Some err) (socket_Close CloseProtocolError (err_Error err) w1)
           | Inr msg \<Rightarrow> UserServer_Run lib u (user_cycle lib u msg w1)))"
  by pat_completeness auto
termination
  by (relation "measure (\<lambda>(lib, u, w). length (inbox w))")
     (auto simp: inbox_user_cycle dest: socket_ReceiveJSON_inbox)

declare UserServer_Run.simps [simp del]

subsection \<open>Connection setup (\<^verbatim>\<open>api_base.go\<close>)\<close>

text \<open>
  The part of \<^verbatim>\<open>websocket.Conn\<close> that connection setup touches: the
  negotiated subprotocol (empty when none was agreed), the read limit (\<open>None\<close>
  until \<^verbatim>\<open>SetReadLimit\<close>), the messages written (type and payload) and whether
  \<^verbatim>\<open>Close\<close> was called. \<^verbatim>\<open>Upgrader.Upgrade\<close> either fails the handshake
  or returns a connection whose subprotocol is the first of the server's protocols
  that the request offers.
\<close>

record Conn =
  Subprotocol :: string
  readLimit :: "int option"
  written :: "(nat \<times> string) list"
  closed :: bool

record apiBase =
  socket :: Conn

record http_request =
  handshake :: "go_error option"
  offered :: "string list"

definition upgradeTimeout :: int where
  "upgradeTimeout = 10 * 1000000000"

definition deviceAPIProtocolV1 :: string where
  "deviceAPIProtocolV1 = ''v2.device.msg''"

definition userAPIProtocolV3 :: string where
  "userAPIProtocolV3 = ''v5.user.msg''"

definition CloseMessage :: nat where
  "CloseMessage = 8"

definition CloseNoStatusReceived :: nat where
  "CloseNoStatusReceived = 1005"

definition FormatCloseMessage :: "nat \<Rightarrow> string \<Rightarrow> string" where
  "FormatCloseMessage closeCode txt =
     (if closeCode = CloseNoStatusReceived then []
      else char_of (closeCode div 256) # char_of (closeCode mod 256) # txt)"

fun selectSubprotocol :: "string list \<Rightarrow> string list \<Rightarrow> string" where
  "selectSubprotocol [] clientProtocols = []"
| "selectSubprotocol (serverProtocol # rest) clientProtocols =
     (if serverProtocol \<in> set clientProtocols then serverProtocol
      else selectSubprotocol rest clientProtocols)"

definition Upgrader_Upgrade :: "string list \<Rightarrow> http_request \<Rightarrow> go_error + Conn" where
  "Upgrader_Upgrade protocols r =
     (case handshake r of
        Some err \<Rightarrow> Inl err
      | None \<Rightarrow>
          Inr \<lparr>Subprotocol = selectSubprotocol protocols (offered r), readLimit = None,
               written = [], closed = False\<rparr>)"

text \<open>
  The result of \<^verbatim>\<open>initAPIBaseFromSocket\<close> is the pair the source returns
  (\<open>Inl\<close> for \<^verbatim>\<open>nil, err\<close>, \<open>Inr\<close> for \<^verbatim>\<open>base, nil\<close>) and the
  connection as the call leaves it.
\<close>

definition initAPIBaseFromSocket :: "Conn \<Rightarrow> (go_error + apiBase) \<times> Conn" where
  "initAPIBaseFromSocket conn =
     (if Subprotocol conn = [] then
        (let conn1 = conn\<lparr>written := written conn @
                            [(CloseMessage, FormatCloseMessage CloseProtocolError [])]\<rparr>;
             conn2 = conn1\<lparr>closed := True\<rparr>
         in (Inl errProtocolNegotiationFailed, conn2))
      else
        (let conn1 = conn\<lparr>readLimit := Some 4096\<rparr>
         in (Inr \<lparr>socket = conn1\<rparr>, conn1)))"

definition initAPIBaseFromHTTP :: "http_request \<Rightarrow> string list \<Rightarrow> (go_error + apiBase) \<times> Conn option" where
  "initAPIBaseFromHTTP r protocols =
     (case Upgrader_Upgrade protocols r of
        Inl err \<Rightarrow> (Inl err, None)
      | Inr conn \<Rightarrow> (case initAPIBaseFromSocket conn of (res, conn') \<Rightarrow> (res, Some conn')))"

subsection \<open>Connections after a step\<close>

text \<open>
  The connection once the frame at the head of the inbox has been taken (\<open>rest\<close> is
  what is left to receive) and exactly one message \<open>m\<close> has been written in reply:
  nothing else on the wire, nothing closed.
\<close>

definition after_reply :: "MessageOut \<Rightarrow> (go_error + string) list \<Rightarrow> 's world \<Rightarrow> 's world" where
  "after_reply m rest w =
     w\<lparr>inbox := rest, wresults := tl (wresults w), outbox := outbox w @ [WriteJSON m]\<rparr>"

text \<open>The same when nothing has been written.\<close>

definition after_silence :: "(go_error + string) list \<Rightarrow> 's world \<Rightarrow> 's world" where
  "after_silence rest w = w\<lparr>inbox := rest\<rparr>"

text \<open>
  The connection once the receive at the head of the inbox has failed and the close
  frame has been written.
\<close>

definition after_close :: "go_error \<Rightarrow> (go_error + string) list \<Rightarrow> 's world \<Rightarrow> 's world" where
  "after_close err rest w =
     w\<lparr>inbox := rest, outbox := outbox w @ [CloseFrame CloseProtocolError (err_Error err)]\<rparr>"

fun world_of :: "('r, 'w) outcome \<Rightarrow> 'w" where
  "world_of (Returned r w) = w"
| "world_of (Blocked w) = w"

fun returned :: "('r, 'w) outcome \<Rightarrow> 'r option" where
  "returned (Returned r w) = Some r"
| "returned (Blocked w) = None"

text \<open>What the write after the next \<open>n\<close> writes will return.\<close>

definition nth_write_result :: "nat \<Rightarrow> 's world \<Rightarrow> go_error option" where
  "nth_write_result n w = write_result (w\<lparr>wresults := drop n (wresults w)\<rparr>)"

text \<open>
  The connection after a handshake on the challenge bytes \<open>buf\<close>: the reply has
  been taken from the inbox, and the server has written the challenge in hex and then
  either the text "proceed" or the close frame with the error's text.
\<close>

definition authenticated :: "string \<Rightarrow> (go_error + string) list \<Rightarrow> 's world \<Rightarrow> 's world" where
  "authenticated buf rest w =
     w\<lparr>inbox := rest, wresults := drop 2 (wresults w),
       outbox := outbox w @ [WriteText (hex_EncodeToString buf), WriteText ''proceed'']\<rparr>"

definition rejected :: "go_error \<Rightarrow> string \<Rightarrow> (go_error + string) list \<Rightarrow> 's world \<Rightarrow> 's world" where
  "rejected err buf rest w =
     w\<lparr>inbox := rest, wresults := drop 1 (wresults w),
       outbox := outbox w @
         [WriteText (hex_EncodeToString buf), CloseFrame CloseProtocolError (err_Error err)]\<rparr>"

text \<open>
  One bit of one byte of a message flipped: bit \<open>b\<close> (below 8) of the byte at
  index \<open>i\<close>. The letters among the hex digits are \<open>a\<close> to \<open>f\<close> and \<open>A\<close> to
  \<open>F\<close>.
\<close>

definition flip_char_bit :: "nat \<Rightarrow> char \<Rightarrow> char" where
  "flip_char_bit b c = char_of (flip_bit b (of_char c :: nat))"

definition corrupt :: "nat \<Rightarrow> nat \<Rightarrow> string \<Rightarrow> string" where
  "corrupt i b s = s[i := flip_char_bit b (s ! i)]"

definition is_hex_letter :: "char \<Rightarrow> bool" where
  "is_hex_letter c =
     (let n = (of_char c :: nat) in (97 \<le> n \<and> n \<le> 102) \<or> (65 \<le> n \<and> n \<le> 70))"

text \<open>An outcome with the write results that are left over blanked.\<close>

fun forget_wresults :: "('r, 's world) outcome \<Rightarrow> ('r, 's world) outcome" where
  "forget_wresults (Returned r w) = Returned r (w\<lparr>wresults := []\<rparr>)"
| "forget_wresults (Blocked w) = Blocked (w\<lparr>wresults := []\<rparr>)"

subsection \<open>Test fixtures\<close>

text \<open>
  Concrete services, delegates and connections on which the theorems below are
  exercised. The decoder is a stand-in for JSON: a frame is a command word, a space and
  the arguments; the frame \<open>{\<close> does not decode, and neither do the arguments
  \<open>bad\<close>. The keyed hash is a stand-in too. The application state counts the
  delegate calls.
\<close>

definition demo_unmarshalMessageIn :: "string \<Rightarrow> go_error + MessageIn" where
  "demo_unmarshalMessageIn raw =
     (if raw = ''{'' then Inl (ForeignError ''unexpected end of JSON input'')
      else Inr \<lparr>Command = takeWhile (\<lambda>c. c \<noteq> CHR '' '') raw,
               Args = drop 1 (dropWhile (\<lambda>c. c \<noteq> CHR '' '') raw)\<rparr>)"

definition demo_bad_args :: go_error where
  "demo_bad_args = ForeignError ''json: cannot unmarshal string into Go value''"

definition demo_services :: "unit services" where
  "demo_services =
     \<lparr>unmarshalMessageIn = demo_unmarshalMessageIn,
      unmarshalUpdateArgs =
        (\<lambda>a. if a = ''bad'' then Inl demo_bad_args else Inr \<lparr>Values = Map.empty\<rparr>),
      unmarshalAddSensorArgs =
        (\<lambda>a. if a = ''bad'' then Inl demo_bad_args
             else Inr \<lparr>Name = a, Unit = ''W'', Port = 1, Factor = 0\<rparr>),
      unmarshalRemoveSensorArgs =
        (\<lambda>a. if a = ''bad'' then Inl demo_bad_args else Inr \<lparr>rm_Name = a\<rparr>),
      unmarshalDeviceMetadata =
        (\<lambda>a. if a = ''bad'' then Inl demo_bad_args else Inr ()),
      unmarshalGetValuesArgs =
        (\<lambda>a. if a = ''bad'' then Inl demo_bad_args
             else Inr \<lparr>SinceUnixMs = 0, WithMetadata = True\<rparr>),
      hmac_sha256 = (\<lambda>key msg. key @ msg),
      int64_div1000 = (\<lambda>x. 0),
      int64_of_float = (\<lambda>x. 0)\<rparr>"

definition demo_clock :: "nat \<Rightarrow> int" where
  "demo_clock n = 1700000000123456789 + int n * 1000000000"

definition demo_world :: "(go_error + string) list \<Rightarrow> go_error option list \<Rightarrow> nat world" where
  "demo_world frames wr =
     \<lparr>inbox = frames, wresults = wr, outbox = [], entropy = Inr ''K'',
      clock = demo_clock, ticks = 0, app = 0\<rparr>"

definition no_delegates :: "(unit, nat) DeviceServer" where
  "no_delegates =
     \<lparr>Update = None, AddSensor = None, RemoveSensor = None, UpdateMetadata = None\<rparr>"

definition demo_failure :: Error where
  "demo_failure = \<lparr>kind = InvalidInput, message = ''no such sensor''\<rparr>"

definition good_delegates :: "(unit, nat) DeviceServer" where
  "good_delegates =
     \<lparr>Update = Some (\<lambda>values s. (None, Suc s)),
      AddSensor = Some (\<lambda>name unit port factor s. (None, Suc s)),
      RemoveSensor = Some (\<lambda>name s. (None, Suc s)),
      UpdateMetadata = Some (\<lambda>metadata s. (None, Suc s))\<rparr>"

definition failing_delegates :: "(unit, nat) DeviceServer" where
  "failing_delegates =
     \<lparr>Update = Some (\<lambda>values s. (Some demo_failure, Suc s)),
      AddSensor = Some (\<lambda>name unit port factor s. (Some demo_failure, Suc s)),
      RemoveSensor = Some (\<lambda>name s. (Some demo_failure, Suc s)),
      UpdateMetadata = Some (\<lambda>metadata s. (Some demo_failure, Suc s))\<rparr>"

definition no_user_delegate :: "nat UserServer" where
  "no_user_delegate = \<lparr>GetValues = None\<rparr>"

definition good_user_delegate :: "nat UserServer" where
  "good_user_delegate = \<lparr>GetValues = Some (\<lambda>since withMetadata s. (None, Suc s))\<rparr>"

definition boom_GetValues :: "Time \<Rightarrow> bool \<Rightarrow> nat \<Rightarrow> go_error option \<times> nat" where
  "boom_GetValues since withMetadata s = (Some (ForeignError ''boom''), Suc s)"

definition failing_user_delegate :: "nat UserServer" where
  "failing_user_delegate = \<lparr>GetValues = Some boom_GetValues\<rparr>"

section \<open>Properties\<close>

subsection \<open>One turn of the loops\<close>

lemma device_loop_step:
  assumes "inbox w = Inr raw # rest" and "unmarshalMessageIn lib raw = Inr msg"
  shows "device_loop lib d w = device_loop lib d (device_cycle lib d msg (w\<lparr>inbox := rest\<rparr>))"
  using assms by (subst device_loop.simps) (simp add: socket_ReceiveJSON_def socket_Receive_def)

lemma UserServer_Run_step:
  assumes "inbox w = Inr raw # rest" and "unmarshalMessageIn lib raw = Inr msg"
  shows "UserServer_Run lib u w = UserServer_Run lib u (user_cycle lib u msg (w\<lparr>inbox := rest\<rparr>))"
  using assms by (subst UserServer_Run.simps) (simp add: socket_ReceiveJSON_def socket_Receive_def)

lemma device_cycle_error:
  assumes "device_dispatch lib d msg (w\<lparr>inbox := rest\<rparr>) = (Some e, w\<lparr>inbox := rest, app := s\<rparr>)"
  shows "device_cycle lib d msg (w\<lparr>inbox := rest\<rparr>) = after_reply (error_reply e) rest (w\<lparr>app := s\<rparr>)"
  using assms by (simp add: device_cycle_def device_reply_def socket_WriteJSON_def after_reply_def)


lemma user_cycle_error:
  assumes "user_dispatch lib u msg (w\<lparr>inbox := rest\<rparr>) = (Some e, w\<lparr>inbox := rest, app := s\<rparr>)"
  shows "user_cycle lib u msg (w\<lparr>inbox := rest\<rparr>) = after_reply (error_reply e) rest (w\<lparr>app := s\<rparr>)"
  using assms by (simp add: user_cycle_def user_reply_def socket_WriteJSON_def after_reply_def)

subsection \<open>Evaluating the loops\<close>

lemma device_loop_Nil: "inbox w = [] \<Longrightarrow> device_loop lib d w = Blocked w"
  by (subst device_loop.simps) (simp add: socket_ReceiveJSON_def socket_Receive_def)

lemma UserServer_Run_Nil: "inbox w = [] \<Longrightarrow> UserServer_Run lib u w = Blocked w"
  by (subst UserServer_Run.simps) (simp add: socket_ReceiveJSON_def socket_Receive_def)

lemma device_loop_unfold:
  "inbox w \<noteq> [] \<Longrightarrow>
   device_loop lib d w =
     (case hd (inbox w) of
        Inl err \<Rightarrow> Returned (Some err) (after_close err (tl (inbox w)) w)
      | Inr raw \<Rightarrow>
          (case unmarshalMessageIn lib raw of
             Inl err \<Rightarrow> Returned (Some err) (after_close err (tl (inbox w)) w)
           | Inr msg \<Rightarrow> device_loop lib d (device_cycle lib d msg (w\<lparr>inbox := tl (inbox w)\<rparr>))))"
  by (subst device_loop.simps)
     (simp add: socket_ReceiveJSON_def socket_Receive_def run_fail_def socket_Close_def
       after_close_def split: list.splits sum.splits)

lemma UserServer_Run_unfold:
  "inbox w \<noteq> [] \<Longrightarrow>
   UserServer_Run lib u w =
     (case hd (inbox w) of
        Inl err \<Rightarrow> Returned (Some err) (after_close err (tl (inbox w)) w)
      | Inr raw \<Rightarrow>
          (case unmarshalMessageIn lib raw of
             Inl err \<Rightarrow> Returned (Some err) (after_close err (tl (inbox w)) w)
           | Inr msg \<Rightarrow> UserServer_Run lib u (user_cycle lib u msg (w\<lparr>inbox := tl (inbox w)\<rparr>))))"
  by (subst UserServer_Run.simps)
     (simp add: socket_ReceiveJSON_def socket_Receive_def socket_Close_def
       after_close_def split: list.splits sum.splits)

lemmas run_simps =
  device_loop_Nil device_loop_unfold UserServer_Run_Nil UserServer_Run_unfold
  device_cycle_def device_dispatch_def device_reply_def doUpdate_def doAddSensor_def
  doRemoveSensor_def doUpdateMetadata_def call_delegate_def user_cycle_def user_dispatch_def
  user_reply_def doGetValues_def socket_WriteJSON_def write_result_def time_Now_UnixNano_def
  after_close_def after_reply_def after_silence_def error_reply_def now_reply_def
  badCommand_def invalidInput_def operationFailed_def MessageOut_zero_def

lemmas demo_simps =
  demo_services_def demo_unmarshalMessageIn_def demo_bad_args_def demo_world_def demo_clock_def
  no_delegates_def good_delegates_def failing_delegates_def demo_failure_def
  no_user_delegate_def good_user_delegate_def failing_user_delegate_def boom_GetValues_def

subsection \<open>Unknown commands\<close>



subsection \<open>Absent delegates\<close>




subsection \<open>Successful commands\<close>







subsection \<open>Failing delegates\<close>




subsection \<open>Arguments that do not decode\<close>

lemma device_decode_failure:
  assumes recv: "inbox w = Inr raw # rest"
    and dec: "unmarshalMessageIn lib raw = Inr msg"
    and bad: "Command msg = ''update'' \<and> unmarshalUpdateArgs lib (Args msg) = Inl err \<or>
      Command msg = ''addSensor'' \<and> unmarshalAddSensorArgs lib (Args msg) = Inl err \<or>
      Command msg = ''removeSensor'' \<and> unmarshalRemoveSensorArgs lib (Args msg) = Inl err \<or>
      Command msg = ''updateMetadata'' \<and> unmarshalDeviceMetadata lib (Args msg) = Inl err"
  shows "device_loop lib d w =
         device_loop lib d
           (after_reply (error_reply \<lparr>kind = InvalidInput, message = err_Error err\<rparr>) rest w)"
proof -
  from bad have "device_dispatch lib d msg (w\<lparr>inbox := rest\<rparr>) =
      (Some \<lparr>kind = InvalidInput, message = err_Error err\<rparr>, w\<lparr>inbox := rest, app := app w\<rparr>)"
    by (auto simp: device_dispatch_def doUpdate_def doAddSensor_def doRemoveSensor_def
        doUpdateMetadata_def invalidInput_def)
  from device_cycle_error [OF this] device_loop_step [OF recv dec, of d]
  show ?thesis by simp
qed

lemma user_decode_failure:
  assumes recv: "inbox w = Inr raw # rest"
    and dec: "unmarshalMessageIn lib raw = Inr msg"
    and bad: "Command msg = ''getValues''" "unmarshalGetValuesArgs lib (Args msg) = Inl err"
  shows "UserServer_Run lib u w =
         UserServer_Run lib u
           (after_reply (error_reply \<lparr>kind = OperationFailed, message = err_Error err\<rparr>) rest w)"
proof -
  from bad have "user_dispatch lib u msg (w\<lparr>inbox := rest\<rparr>) =
      (Some \<lparr>kind = OperationFailed, message = err_Error err\<rparr>, w\<lparr>inbox := rest, app := app w\<rparr>)"
    by (simp add: user_dispatch_def doGetValues_def operationFailed_def)
  from user_cycle_error [OF this] UserServer_Run_step [OF recv dec, of u]
  show ?thesis by simp
qed

text \<open>
  C2, at a getValues message whose arguments do not decode: \<^verbatim>\<open>doGetValues\<close>
  reports the decode failure as OperationFailed, where the four Device handlers
  report it as InvalidInput (shown here for update on the same arguments).
\<close>

theorem C2_getValues_decode_failure:
  "unmarshalGetValuesArgs demo_services ''bad'' = Inl demo_bad_args \<and>
   outbox (world_of (UserServer_Run demo_services good_user_delegate
                       (demo_world [Inr ''getValues bad''] []))) =
     [WriteJSON (error_reply \<lparr>kind = OperationFailed, message = err_Error demo_bad_args\<rparr>)] \<and>
   outbox (world_of (device_loop demo_services good_delegates
                       (demo_world [Inr ''update bad''] []))) =
     [WriteJSON (error_reply \<lparr>kind = InvalidInput, message = err_Error demo_bad_args\<rparr>)]"
  by (simp add: run_simps demo_simps)

subsection \<open>Failed receives and failed writes\<close>

lemma device_loop_receive_error:
  assumes "inbox w = Inl err # rest \<or>
           (\<exists>raw. inbox w = Inr raw # rest \<and> unmarshalMessageIn lib raw = Inl err)"
  shows "device_loop lib d w = Returned (Some err) (after_close err rest w)"
  using assms by (auto simp: device_loop_unfold)

lemma UserServer_Run_receive_error:
  assumes "inbox w = Inl err # rest \<or>
           (\<exists>raw. inbox w = Inr raw # rest \<and> unmarshalMessageIn lib raw = Inl err)"
  shows "UserServer_Run lib u w = Returned (Some err) (after_close err rest w)"
  using assms by (auto simp: UserServer_Run_unfold)

text \<open>What the writes return has no influence on a turn of either loop.\<close>

lemma device_dispatch_wresults:
  "device_dispatch lib d msg (w\<lparr>wresults := rs\<rparr>) =
   (fst (device_dispatch lib d msg w), (snd (device_dispatch lib d msg w))\<lparr>wresults := rs\<rparr>)"
  by (simp add: device_dispatch_def doUpdate_def doAddSensor_def doRemoveSensor_def
      doUpdateMetadata_def call_delegate_def split: sum.splits option.splits prod.splits)

lemma wresults_device_dispatch: "wresults (snd (device_dispatch lib d msg w)) = wresults w"
  by (simp add: device_dispatch_def doUpdate_def doAddSensor_def doRemoveSensor_def
      doUpdateMetadata_def call_delegate_def split: sum.splits option.splits prod.splits)

lemma device_reply_wresults:
  "device_reply r (w\<lparr>wresults := rs\<rparr>) = (device_reply r w)\<lparr>wresults := tl rs\<rparr>"
  by (simp add: device_reply_def socket_WriteJSON_def time_Now_UnixNano_def
      split: option.splits)

lemma device_cycle_wresults:
  "device_cycle lib d msg (w\<lparr>wresults := rs\<rparr>) = (device_cycle lib d msg w)\<lparr>wresults := tl rs\<rparr>"
  by (simp add: device_cycle_def device_dispatch_wresults device_reply_wresults
      split: prod.splits)

lemma device_loop_wresults:
  "forget_wresults (device_loop lib d (w\<lparr>wresults := rs\<rparr>)) = forget_wresults (device_loop lib d w)"
proof (induction "inbox w" arbitrary: w rs)
  case Nil
  then show ?case by (simp add: device_loop_Nil)
next
  case (Cons f fs)
  from Cons.hyps(2) have ne: "inbox w \<noteq> []" and hd: "hd (inbox w) = f" and tl: "tl (inbox w) = fs"
    by (metis list.distinct(1), metis list.sel(1), metis list.sel(3))
  show ?case
  proof (cases f)
    case (Inl err)
    with ne hd tl show ?thesis
      by (simp add: device_loop_unfold after_close_def)
  next
    case (Inr raw)
    show ?thesis
    proof (cases "unmarshalMessageIn lib raw")
      case (Inl err)
      with Inr ne hd tl show ?thesis
        by (simp add: device_loop_unfold after_close_def)
    next
      case (Inr msg)
      let ?w1 = "device_cycle lib d msg (w\<lparr>inbox := fs\<rparr>)"
      have fs: "fs = inbox ?w1"
        by (simp add: inbox_device_cycle)
      have swap: "w\<lparr>wresults := rs, inbox := fs\<rparr> = w\<lparr>inbox := fs, wresults := rs\<rparr>"
        by simp
      from Cons.hyps(1) [OF fs, of "tl rs"]
      have "forget_wresults (device_loop lib d (?w1\<lparr>wresults := tl rs\<rparr>)) =
          forget_wresults (device_loop lib d ?w1)" .
      with Inr \<open>f = Inr raw\<close> ne hd tl show ?thesis
        by (simp add: device_loop_unfold swap device_cycle_wresults)
    qed
  qed
qed

lemma user_cycle_wresults:
  "user_cycle lib u msg (w\<lparr>wresults := rs\<rparr>) =
   (user_cycle lib u msg w)
     \<lparr>wresults := drop (length (outbox (user_cycle lib u msg w)) - length (outbox w)) rs\<rparr>"
  by (simp add: user_cycle_def user_dispatch_def user_reply_def doGetValues_def
      socket_WriteJSON_def drop_Suc split: sum.splits option.splits prod.splits)

lemma UserServer_Run_wresults:
  "forget_wresults (UserServer_Run lib u (w\<lparr>wresults := rs\<rparr>)) =
   forget_wresults (UserServer_Run lib u w)"
proof (induction "inbox w" arbitrary: w rs)
  case Nil
  then show ?case by (simp add: UserServer_Run_Nil)
next
  case (Cons f fs)
  from Cons.hyps(2) have ne: "inbox w \<noteq> []" and hd: "hd (inbox w) = f" and tl: "tl (inbox w) = fs"
    by (metis list.distinct(1), metis list.sel(1), metis list.sel(3))
  show ?case
  proof (cases f)
    case (Inl err)
    with ne hd tl show ?thesis
      by (simp add: UserServer_Run_unfold after_close_def)
  next
    case (Inr raw)
    show ?thesis
    proof (cases "unmarshalMessageIn lib raw")
      case (Inl err)
      with Inr ne hd tl show ?thesis
        by (simp add: UserServer_Run_unfold after_close_def)
    next
      case (Inr msg)
      let ?w1 = "user_cycle lib u msg (w\<lparr>inbox := fs\<rparr>)"
      have fs: "fs = inbox ?w1"
        by (simp add: inbox_user_cycle)
      have swap: "w\<lparr>wresults := rs, inbox := fs\<rparr> = w\<lparr>inbox := fs, wresults := rs\<rparr>"
        by simp
      from Cons.hyps(1) [OF fs]
      have "forget_wresults (UserServer_Run lib u (?w1\<lparr>wresults := rs'\<rparr>)) =
          forget_wresults (UserServer_Run lib u ?w1)" for rs' .
      with Inr \<open>f = Inr raw\<close> ne hd tl show ?thesis
        by (simp add: UserServer_Run_unfold swap user_cycle_wresults)
    qed
  qed
qed

text \<open>
  C4, as the code has it. A failed receive (the transport's read fails, or the
  envelope does not decode) ends either loop at once: the close frame with the
  protocol-error code and the error's text is the only thing written, the error is
  returned, the rest of the inbox is never read and no delegate runs. The result of
  a reply write is dropped: apart from the write results left over, the outcome of
  either loop is the same whatever the writes return.
\<close>

theorem C4_receive_error_fatal:
  "(inbox w = Inl err # rest \<or>
    (\<exists>raw. inbox w = Inr raw # rest \<and> unmarshalMessageIn lib raw = Inl err) \<longrightarrow>
      device_loop lib d w = Returned (Some err) (after_close err rest w) \<and>
      UserServer_Run lib u w = Returned (Some err) (after_close err rest w)) \<and>
   forget_wresults (device_loop lib d (w\<lparr>wresults := rs\<rparr>)) =
     forget_wresults (device_loop lib d w) \<and>
   forget_wresults (UserServer_Run lib u (w\<lparr>wresults := rs\<rparr>)) =
     forget_wresults (UserServer_Run lib u w)"
proof (intro conjI impI)
  assume "inbox w = Inl err # rest \<or>
    (\<exists>raw. inbox w = Inr raw # rest \<and> unmarshalMessageIn lib raw = Inl err)"
  then show "device_loop lib d w = Returned (Some err) (after_close err rest w)"
    by (rule device_loop_receive_error)
next
  assume "inbox w = Inl err # rest \<or>
    (\<exists>raw. inbox w = Inr raw # rest \<and> unmarshalMessageIn lib raw = Inl err)"
  then show "UserServer_Run lib u w = Returned (Some err) (after_close err rest w)"
    by (rule UserServer_Run_receive_error)
next
  show "forget_wresults (device_loop lib d (w\<lparr>wresults := rs\<rparr>)) =
      forget_wresults (device_loop lib d w)"
    by (rule device_loop_wresults)
next
  show "forget_wresults (UserServer_Run lib u (w\<lparr>wresults := rs\<rparr>)) =
      forget_wresults (UserServer_Run lib u w)"
    by (rule UserServer_Run_wresults)
qed

theorem C4_receive_error_fatal_witness:
  "device_loop demo_services good_delegates
     (demo_world [Inl (ForeignError ''EOF''), Inr ''update x''] []) =
     Returned (Some (ForeignError ''EOF''))
       ((demo_world [Inr ''update x''] [])\<lparr>outbox := [CloseFrame CloseProtocolError ''EOF'']\<rparr>) \<and>
   UserServer_Run demo_services good_user_delegate
     (demo_world [Inr ''{'', Inr ''getValues x''] []) =
     Returned (Some (ForeignError ''unexpected end of JSON input''))
       ((demo_world [Inr ''getValues x''] [])
          \<lparr>outbox := [CloseFrame CloseProtocolError ''unexpected end of JSON input'']\<rparr>)"
proof -
  have 1: "inbox (demo_world [Inl (ForeignError ''EOF''), Inr ''update x''] []) =
      Inl (ForeignError ''EOF'') # [Inr ''update x'']"
    by (simp add: demo_world_def)
  have 2: "inbox (demo_world [Inr ''{'', Inr ''getValues x''] []) = Inr ''{'' # [Inr ''getValues x''] \<and>
      unmarshalMessageIn demo_services ''{'' = Inl (ForeignError ''unexpected end of JSON input'')"
    by (simp add: demo_world_def demo_services_def demo_unmarshalMessageIn_def)
  from 1 C4_receive_error_fatal
    [where w = "demo_world [Inl (ForeignError ''EOF''), Inr ''update x''] []"
      and err = "ForeignError ''EOF''" and rest = "[Inr ''update x'']" and lib = demo_services
      and d = good_delegates]
  have "device_loop demo_services good_delegates
      (demo_world [Inl (ForeignError ''EOF''), Inr ''update x''] []) =
      Returned (Some (ForeignError ''EOF''))
        (after_close (ForeignError ''EOF'') [Inr ''update x'']
           (demo_world [Inl (ForeignError ''EOF''), Inr ''update x''] []))"
    by blast
  moreover from 2 C4_receive_error_fatal
    [where w = "demo_world [Inr ''{'', Inr ''getValues x''] []"
      and err = "ForeignError ''unexpected end of JSON input''"
      and rest = "[Inr ''getValues x'']" and lib = demo_services and u = good_user_delegate]
  have "UserServer_Run demo_services good_user_delegate
      (demo_world [Inr ''{'', Inr ''getValues x''] []) =
      Returned (Some (ForeignError ''unexpected end of JSON input''))
        (after_close (ForeignError ''unexpected end of JSON input'') [Inr ''getValues x'']
           (demo_world [Inr ''{'', Inr ''getValues x''] []))"
    by blast
  ultimately show ?thesis
    by (simp add: after_close_def demo_world_def)
qed

text \<open>
  The claim as stated fails on a failed reply write: the first reply cannot be
  written, and the loop still runs the next command cycle (the delegate is called,
  a second reply is written) and neither closes nor returns.
\<close>

theorem C4_failed_write_counterexample:
  "write_result (demo_world [Inr ''bogus'', Inr ''update x''] [Some (ForeignError ''broken pipe'')]) =
     Some (ForeignError ''broken pipe'') \<and>
   device_loop demo_services good_delegates
     (demo_world [Inr ''bogus'', Inr ''update x''] [Some (ForeignError ''broken pipe'')]) =
     Blocked ((demo_world [] [])
       \<lparr>outbox := [WriteJSON (error_reply \<lparr>kind = BadCommand, message = ''bogus''\<rparr>),
                   WriteJSON (now_reply 1700000000123)],
        ticks := 1, app := 1\<rparr>)"
  by (simp add: run_simps demo_simps signed_divide_int_def)

subsection \<open>The handshake\<close>

lemma authenticate_accept:
  assumes ent: "entropy w = Inr buf"
    and recv: "inbox w = Inr reply # rest"
    and dec: "hex_DecodeString reply = Inr (hmac_sha256 lib key buf)"
  shows "authenticate lib key w = Returned (nth_write_result 1 w) (authenticated buf rest w)"
  using assms
  by (simp add: authenticate_def rand_Read_def socket_Write_def socket_Receive_def
      hmac_Equal_def nth_write_result_def authenticated_def write_result_def drop_Suc
      numeral_2_eq_2 split: list.splits)

lemma authenticate_reject:
  assumes ent: "entropy w = Inr buf"
    and recv: "inbox w = Inr reply # rest"
    and bad: "hex_DecodeString reply = Inl err \<or>
      (\<exists>m. hex_DecodeString reply = Inr m \<and> m \<noteq> hmac_sha256 lib key buf \<and>
           err = errAuthenticationFailed)"
  shows "authenticate lib key w =
         Returned (Some err) (w\<lparr>inbox := rest, wresults := drop 1 (wresults w),
                                outbox := outbox w @ [WriteText (hex_EncodeToString buf)]\<rparr>)"
  using assms
  by (auto simp: authenticate_def rand_Read_def socket_Write_def socket_Receive_def
      hmac_Equal_def drop_Suc)

lemma DeviceServer_Run_reject:
  assumes ent: "entropy w = Inr buf"
    and recv: "inbox w = Inr reply # rest"
    and bad: "hex_DecodeString reply = Inl err \<or>
      (\<exists>m. hex_DecodeString reply = Inr m \<and> m \<noteq> hmac_sha256 lib key buf \<and>
           err = errAuthenticationFailed)"
  shows "DeviceServer_Run lib d key w = Returned (Some err) (rejected err buf rest w)"
  by (simp add: DeviceServer_Run_def authenticate_reject [OF assms] run_fail_def
      socket_Close_def rejected_def)

lemma device_loop_returns:
  "device_loop lib d w = Returned r w' \<Longrightarrow>
   \<exists>err pre. r = Some err \<and> outbox w' = pre @ [CloseFrame CloseProtocolError (err_Error err)]"
proof (induction "inbox w" arbitrary: w)
  case Nil
  then show ?case by (simp add: device_loop_Nil)
next
  case (Cons f fs)
  from Cons.hyps(2) have ne: "inbox w \<noteq> []" and hd: "hd (inbox w) = f" and tl: "tl (inbox w) = fs"
    by (metis list.distinct(1), metis list.sel(1), metis list.sel(3))
  show ?case
  proof (cases f)
    case (Inl err)
    with ne hd tl Cons.prems show ?thesis
      by (auto simp: device_loop_unfold after_close_def)
  next
    case (Inr raw)
    show ?thesis
    proof (cases "unmarshalMessageIn lib raw")
      case (Inl err)
      with Inr ne hd tl Cons.prems show ?thesis
        by (auto simp: device_loop_unfold after_close_def)
    next
      case (Inr msg)
      let ?w1 = "device_cycle lib d msg (w\<lparr>inbox := fs\<rparr>)"
      have fs: "fs = inbox ?w1"
        by (simp add: inbox_device_cycle)
      from Inr \<open>f = Inr raw\<close> ne hd tl Cons.prems
      have "device_loop lib d ?w1 = Returned r w'"
        by (simp add: device_loop_unfold)
      from Cons.hyps(1) [OF fs this] show ?thesis .
    qed
  qed
qed

subsection \<open>What \<^verbatim>\<open>Run\<close> returns\<close>

text \<open>
  C10. \<^verbatim>\<open>DeviceServer.Run\<close> never returns \<^verbatim>\<open>nil\<close>: whenever it returns, it
  returns an error, and the last thing it did on the connection is the close frame
  with the protocol-error code and that error's text.
\<close>

theorem C10_Run_returns_error:
  assumes "DeviceServer_Run lib d key w = Returned r w'"
  shows "\<exists>err pre. r = Some err \<and>
           outbox w' = pre @ [CloseFrame CloseProtocolError (err_Error err)]"
proof (cases "authenticate lib key w")
  case (Blocked w1)
  with assms show ?thesis
    by (simp add: DeviceServer_Run_def)
next
  case (Returned a w1)
  show ?thesis
  proof (cases a)
    case None
    with Returned assms have "device_loop lib d w1 = Returned r w'"
      by (simp add: DeviceServer_Run_def)
    then show ?thesis
      by (rule device_loop_returns)
  next
    case (Some err)
    with Returned assms have "r = Some err"
      and "outbox w' = outbox w1 @ [CloseFrame CloseProtocolError (err_Error err)]"
      by (auto simp: DeviceServer_Run_def run_fail_def socket_Close_def)
    then show ?thesis by blast
  qed
qed

lemma demo_hex:
  "hex_DecodeString ''6b4b'' = Inr ''kK''" "hex_EncodeToString ''K'' = ''4b''"
  "hex_DecodeString ''6B4b'' = Inr ''kK''" "hex_DecodeString ''zz'' = Inl (InvalidByteError CHR ''z'')"
  "hex_DecodeString ''6b4'' = Inl ErrLength" "hex_DecodeString ''6b4a'' = Inr ''kJ''"
  by code_simp+

lemma demo_session:
  "DeviceServer_Run demo_services good_delegates ''k''
     (demo_world [Inr ''6b4b'', Inr ''update x'', Inl (ForeignError ''EOF'')] []) =
   Returned (Some (ForeignError ''EOF''))
     ((demo_world [] [])
        \<lparr>outbox := [WriteText ''4b'', WriteText ''proceed'', WriteJSON (now_reply 1700000000123),
                    CloseFrame CloseProtocolError ''EOF''],
         ticks := 1, app := 1\<rparr>)"
proof -
  let ?w = "demo_world [Inr ''6b4b'', Inr ''update x'', Inl (ForeignError ''EOF'')] [] :: nat world"
  have "authenticate demo_services ''k'' ?w =
      Returned (nth_write_result 1 ?w)
        (authenticated ''K'' [Inr ''update x'', Inl (ForeignError ''EOF'')] ?w)"
    by (rule authenticate_accept [where buf = "''K''" and reply = "''6b4b''"])
       (simp_all add: demo_world_def demo_services_def demo_hex del: hex_DecodeString.simps)
  then show ?thesis
    by (simp add: DeviceServer_Run_def nth_write_result_def authenticated_def demo_hex
        run_simps demo_simps signed_divide_int_def
        del: hex_DecodeString.simps hex_EncodeToString.simps)
qed

theorem C10_Run_returns_error_witness:
  "DeviceServer_Run demo_services good_delegates ''k''
     (demo_world [Inr ''6b4b'', Inr ''update x'', Inl (ForeignError ''EOF'')] []) =
   Returned (Some (ForeignError ''EOF''))
     ((demo_world [] [])
        \<lparr>outbox := [WriteText ''4b'', WriteText ''proceed'', WriteJSON (now_reply 1700000000123),
                    CloseFrame CloseProtocolError ''EOF''],
         ticks := 1, app := 1\<rparr>) \<and>
   (\<exists>err pre. Some (ForeignError ''EOF'') = Some err \<and>
      outbox ((demo_world [] [])
        \<lparr>outbox := [WriteText ''4b'', WriteText ''proceed'', WriteJSON (now_reply 1700000000123),
                    CloseFrame CloseProtocolError ''EOF''],
         ticks := 1, app := 1\<rparr>) =
      pre @ [CloseFrame CloseProtocolError (err_Error err)])"
  using demo_session C10_Run_returns_error [OF demo_session] by simp

subsection \<open>Authentication\<close>

lemma fromHexChar_hextable:
  "k < 16 \<Longrightarrow> fromHexChar (hextable ! k) = Some k"
proof -
  have "\<forall>k \<in> set [0..<16]. fromHexChar (hextable ! k) = Some k"
    by code_simp
  then show "k < 16 \<Longrightarrow> fromHexChar (hextable ! k) = Some k"
    by simp
qed

lemma hex_roundtrip: "hex_DecodeString (hex_EncodeToString bs) = Inr bs"
proof (induction bs)
  case Nil
  show ?case by simp
next
  case (Cons v vs)
  have "(of_char v :: nat) < 16 * 16"
    using nat_of_char_less_256 [of v] by simp
  then have "(of_char v :: nat) div 16 < 16"
    by (rule less_mult_imp_div_less)
  moreover have "(of_char v :: nat) mod 16 < 16"
    by simp
  moreover have "char_of ((of_char v :: nat) div 16 * 16 + of_char v mod 16) = v"
    by simp
  ultimately show ?case
    using Cons by (simp add: fromHexChar_hextable)
qed

text \<open>
  C5, as the code has it. When the reply decodes from hex to the HMAC-SHA-256 of the
  raw challenge bytes under the key (compared by \<^verbatim>\<open>hmac.Equal\<close>), the server
  writes the challenge and then the text "proceed", and \<^verbatim>\<open>authenticate\<close> returns
  what that write returns. When the write has gone through, authentication returns
  no error and \<^verbatim>\<open>Run\<close> enters the dispatch loop on the rest of the inbox. When
  the write fails, \<^verbatim>\<open>Run\<close> returns its error after the close frame with the
  protocol-error code and the error's text, and the dispatch loop does not start.
  The lowercase hex of the expected value, which a compliant client sends, is a reply
  that decodes to it.
\<close>

theorem C5_authentication_succeeds:
  assumes ent: "entropy w = Inr buf"
    and recv: "inbox w = Inr reply # rest"
    and dec: "hex_DecodeString reply = Inr (hmac_sha256 lib key buf)"
  shows "authenticate lib key w = Returned (nth_write_result 1 w) (authenticated buf rest w) \<and>
         outbox (authenticated buf rest w) =
           outbox w @ [WriteText (hex_EncodeToString buf), WriteText ''proceed''] \<and>
         (nth_write_result 1 w = None \<longrightarrow>
            authenticate lib key w = Returned None (authenticated buf rest w) \<and>
            DeviceServer_Run lib d key w = device_loop lib d (authenticated buf rest w)) \<and>
         (nth_write_result 1 w = Some err \<longrightarrow>
            DeviceServer_Run lib d key w =
              Returned (Some err)
                (socket_Close CloseProtocolError (err_Error err) (authenticated buf rest w))) \<and>
         hex_DecodeString (hex_EncodeToString (hmac_sha256 lib key buf)) =
           Inr (hmac_sha256 lib key buf)"
  using authenticate_accept [OF ent recv dec]
  by (simp add: DeviceServer_Run_def authenticated_def hex_roundtrip run_fail_def)

theorem C5_authentication_succeeds_witness:
  "entropy (demo_world [Inr ''6b4b'', Inr ''update x''] []) = Inr ''K'' \<and>
   hmac_sha256 demo_services ''k'' ''K'' = ''kK'' \<and>
   hex_DecodeString ''6b4b'' = Inr ''kK'' \<and>
   nth_write_result 1 (demo_world [Inr ''6b4b'', Inr ''update x''] []) = None \<and>
   authenticate demo_services ''k'' (demo_world [Inr ''6b4b'', Inr ''update x''] []) =
     Returned None
       ((demo_world [Inr ''update x''] [])\<lparr>outbox := [WriteText ''4b'', WriteText ''proceed'']\<rparr>) \<and>
   DeviceServer_Run demo_services good_delegates ''k''
       (demo_world [Inr ''6b4b'', Inr ''update x''] []) =
     device_loop demo_services good_delegates
       ((demo_world [Inr ''update x''] [])\<lparr>outbox := [WriteText ''4b'', WriteText ''proceed'']\<rparr>) \<and>
   nth_write_result 1
       (demo_world [Inr ''6b4b'', Inr ''update x''] [None, Some (ForeignError ''broken pipe'')]) =
     Some (ForeignError ''broken pipe'') \<and>
   DeviceServer_Run demo_services good_delegates ''k''
       (demo_world [Inr ''6b4b'', Inr ''update x''] [None, Some (ForeignError ''broken pipe'')]) =
     Returned (Some (ForeignError ''broken pipe''))
       ((demo_world [Inr ''update x''] [])
          \<lparr>outbox := [WriteText ''4b'', WriteText ''proceed'',
                      CloseFrame CloseProtocolError ''broken pipe'']\<rparr>)"
proof -
  let ?w = "demo_world [Inr ''6b4b'', Inr ''update x''] [] :: nat world"
  let ?v = "demo_world [Inr ''6b4b'', Inr ''update x''] [None, Some (ForeignError ''broken pipe'')]
      :: nat world"
  have ent: "entropy (demo_world fs wr) = Inr ''K''"
    and recv: "inbox (demo_world (Inr r # fs') wr) = Inr r # fs'" for fs fs' r wr
    by (simp_all add: demo_world_def)
  have sent: "nth_write_result 1 ?w = None"
    and failed: "nth_write_result 1 ?v = Some (ForeignError ''broken pipe'')"
    by (simp_all add: demo_world_def nth_write_result_def write_result_def)
  have mac: "hmac_sha256 demo_services ''k'' ''K'' = ''kK''"
    by (simp add: demo_services_def)
  have dec: "hex_DecodeString ''6b4b'' = Inr (hmac_sha256 demo_services ''k'' ''K'')"
    by (simp only: mac demo_hex)
  have w': "authenticated ''K'' [Inr ''update x''] ?w =
      (demo_world [Inr ''update x''] [])\<lparr>outbox := [WriteText ''4b'', WriteText ''proceed'']\<rparr>"
    by (simp add: authenticated_def demo_world_def demo_hex del: hex_EncodeToString.simps)
  have v': "socket_Close CloseProtocolError (err_Error (ForeignError ''broken pipe''))
        (authenticated ''K'' [Inr ''update x''] ?v) =
      (demo_world [Inr ''update x''] [])
        \<lparr>outbox := [WriteText ''4b'', WriteText ''proceed'',
                    CloseFrame CloseProtocolError ''broken pipe'']\<rparr>"
    by (simp add: authenticated_def socket_Close_def demo_world_def demo_hex
        del: hex_EncodeToString.simps)
  note ok = C5_authentication_succeeds [where d = good_delegates, OF ent recv dec,
      THEN conjunct2, THEN conjunct2, THEN conjunct1, THEN mp, OF sent]
  note ko = C5_authentication_succeeds [where d = good_delegates, OF ent recv dec,
      THEN conjunct2, THEN conjunct2, THEN conjunct2, THEN conjunct1, THEN mp, OF failed]
  from ok have 1: "authenticate demo_services ''k'' ?w =
      Returned None
        ((demo_world [Inr ''update x''] [])\<lparr>outbox := [WriteText ''4b'', WriteText ''proceed'']\<rparr>)"
    and 2: "DeviceServer_Run demo_services good_delegates ''k'' ?w =
      device_loop demo_services good_delegates
        ((demo_world [Inr ''update x''] [])\<lparr>outbox := [WriteText ''4b'', WriteText ''proceed'']\<rparr>)"
    by (simp_all only: w')
  from ko have 3: "DeviceServer_Run demo_services good_delegates ''k'' ?v =
      Returned (Some (ForeignError ''broken pipe''))
        ((demo_world [Inr ''update x''] [])
           \<lparr>outbox := [WriteText ''4b'', WriteText ''proceed'',
                       CloseFrame CloseProtocolError ''broken pipe'']\<rparr>)"
    by (simp only: v')
  show ?thesis
    by (intro conjI) (rule ent mac demo_hex sent failed 1 2 3)+
qed

text \<open>
  The claim as stated fails when the transport refuses the write of "proceed": the
  reply is the correct one, and still \<^verbatim>\<open>Run\<close> returns the write's error, closes
  the connection with the protocol-error code, and leaves the next message unread and
  the delegates uncalled.
\<close>

theorem C5_failed_proceed_counterexample:
  "hex_DecodeString ''6b4b'' = Inr (hmac_sha256 demo_services ''k'' ''K'') \<and>
   DeviceServer_Run demo_services good_delegates ''k''
       (demo_world [Inr ''6b4b'', Inr ''update x''] [None, Some (ForeignError ''broken pipe'')]) =
     Returned (Some (ForeignError ''broken pipe''))
       ((demo_world [Inr ''update x''] [])
          \<lparr>outbox := [WriteText ''4b'', WriteText ''proceed'',
                      CloseFrame CloseProtocolError ''broken pipe'']\<rparr>) \<and>
   app ((demo_world [Inr ''update x''] [])
          \<lparr>outbox := [WriteText ''4b'', WriteText ''proceed'',
                      CloseFrame CloseProtocolError ''broken pipe'']\<rparr>) = 0"
proof -
  let ?v = "demo_world [Inr ''6b4b'', Inr ''update x''] [None, Some (ForeignError ''broken pipe'')]
      :: nat world"
  have mac: "hmac_sha256 demo_services ''k'' ''K'' = ''kK''"
    by (simp add: demo_services_def)
  have dec: "hex_DecodeString ''6b4b'' = Inr (hmac_sha256 demo_services ''k'' ''K'')"
    by (simp only: mac demo_hex)
  have "authenticate demo_services ''k'' ?v =
      Returned (nth_write_result 1 ?v) (authenticated ''K'' [Inr ''update x''] ?v)"
    by (rule authenticate_accept [where buf = "''K''" and reply = "''6b4b''"])
       (simp_all add: demo_world_def mac demo_hex del: hex_DecodeString.simps)
  then have run: "DeviceServer_Run demo_services good_delegates ''k'' ?v =
      Returned (Some (ForeignError ''broken pipe''))
        ((demo_world [Inr ''update x''] [])
           \<lparr>outbox := [WriteText ''4b'', WriteText ''proceed'',
                       CloseFrame CloseProtocolError ''broken pipe'']\<rparr>)"
    by (simp add: DeviceServer_Run_def nth_write_result_def write_result_def authenticated_def
        run_fail_def socket_Close_def demo_hex demo_world_def
        del: hex_DecodeString.simps hex_EncodeToString.simps)
  have "app ((demo_world [Inr ''update x''] [])
      \<lparr>outbox := [WriteText ''4b'', WriteText ''proceed'',
                  CloseFrame CloseProtocolError ''broken pipe'']\<rparr>) = 0"
    by (simp add: demo_world_def)
  with dec run show ?thesis
    by (intro conjI)
qed

subsection \<open>Hex digits and flipped bits\<close>

lemma hex_codes:
  "\<forall>n \<in> set ([48..<58] @ [65..<71] @ [97..<103]). \<forall>b \<in> set [0..<8].
     (b = 5 \<and> 65 \<le> n) \<or>
     fromHexChar (char_of (flip_bit b n)) \<noteq> fromHexChar (char_of n)"
  by (simp add: flip_bit_eq_xor fromHexChar_def upt_rec)

lemma hex_letters:
  "\<forall>n \<in> set ([65..<71] @ [97..<103]).
     fromHexChar (char_of (flip_bit 5 n)) = fromHexChar (char_of n)"
  by (simp add: flip_bit_eq_xor fromHexChar_def upt_rec)

lemma fromHexChar_less: "fromHexChar c = Some v \<Longrightarrow> v < 16"
  by (auto simp: fromHexChar_def Let_def split: if_splits)

lemma fromHexChar_code:
  assumes "fromHexChar c = Some v"
  shows "(of_char c :: nat) \<in> set ([48..<58] @ [65..<71] @ [97..<103])"
proof -
  let ?n = "of_char c :: nat"
  from assms have "48 \<le> ?n \<and> ?n < 58 \<or> 65 \<le> ?n \<and> ?n < 71 \<or> 97 \<le> ?n \<and> ?n < 103"
    by (auto simp: fromHexChar_def Let_def split: if_splits)
  then show ?thesis
    by (simp only: set_append set_upt Un_iff atLeastLessThan_iff)
qed

lemma flip_hex_digit:
  assumes "fromHexChar c = Some v" and "b < 8" and "\<not> (b = 5 \<and> is_hex_letter c)"
  shows "fromHexChar (flip_char_bit b c) \<noteq> fromHexChar c"
proof -
  let ?n = "of_char c :: nat"
  from assms(2) have "b \<in> set [0..<8]" by simp
  with hex_codes fromHexChar_code [OF assms(1)]
  have "(b = 5 \<and> 65 \<le> ?n) \<or>
     fromHexChar (char_of (flip_bit b ?n)) \<noteq> fromHexChar (char_of ?n)"
    by blast
  moreover have "is_hex_letter c" if "65 \<le> ?n"
    using that assms(1)
    by (auto simp: is_hex_letter_def fromHexChar_def Let_def split: if_splits)
  ultimately show ?thesis
    using assms(3) by (auto simp: flip_char_bit_def)
qed

lemma flip_hex_letter:
  assumes "is_hex_letter c"
  shows "fromHexChar (flip_char_bit 5 c) = fromHexChar c"
proof -
  let ?n = "of_char c :: nat"
  from assms have "65 \<le> ?n \<and> ?n < 71 \<or> 97 \<le> ?n \<and> ?n < 103"
    by (auto simp: is_hex_letter_def Let_def)
  then have "?n \<in> set ([65..<71] @ [97..<103])"
    by (simp only: set_append set_upt Un_iff atLeastLessThan_iff)
  with hex_letters
  have "fromHexChar (char_of (flip_bit 5 ?n)) = fromHexChar (char_of ?n)"
    by blast
  then show ?thesis by (simp add: flip_char_bit_def)
qed

lemma hex_byte_inject:
  assumes "a < 16" "a' < 16" "b < 16" "b' < 16"
    and "char_of (a * 16 + b :: nat) = char_of (a' * 16 + b')"
  shows "a = a' \<and> b = b'"
proof -
  let ?x = "a * 16 + b" and ?y = "a' * 16 + b'"
  from assms(1) have "a * 16 \<le> 15 * 16"
    by (intro mult_le_mono1) simp
  with assms(3) have "?x < 256"
    by simp
  moreover from assms(2) have "a' * 16 \<le> 15 * 16"
    by (intro mult_le_mono1) simp
  with assms(4) have "?y < 256"
    by simp
  moreover from assms(5) have "(of_char (char_of ?x) :: nat) = of_char (char_of ?y)"
    by (simp only:)
  then have "?x mod 256 = ?y mod 256"
    by (simp only: of_char_of)
  ultimately have eq: "?x = ?y"
    by simp
  from assms(3) have "?x div 16 = a" "?x mod 16 = b"
    by simp_all
  moreover from assms(4) have "?y div 16 = a'" "?y mod 16 = b'"
    by simp_all
  ultimately show ?thesis
    using eq by metis
qed

lemma hex_DecodeString_digits:
  "hex_DecodeString s = Inr m \<Longrightarrow> i < length s \<Longrightarrow> \<exists>v. fromHexChar (s ! i) = Some v"
proof (induction s arbitrary: i m rule: hex_DecodeString.induct)
  case 1
  then show ?case by simp
next
  case (2 p)
  then show ?case by (simp split: option.splits)
next
  case (3 p q rest)
  from "3.prems"(1) obtain a b bs where p: "fromHexChar p = Some a" and q: "fromHexChar q = Some b"
    and r: "hex_DecodeString rest = Inr bs"
    by (auto split: option.splits sum.splits)
  show ?case
  proof (cases i)
    case 0
    with p show ?thesis by simp
  next
    case (Suc j)
    show ?thesis
    proof (cases j)
      case 0
      with Suc q show ?thesis by simp
    next
      case (Suc k)
      with \<open>i = Suc j\<close> "3.prems"(2) have "k < length rest" by simp
      from "3.IH" [OF p q r this] Suc \<open>i = Suc j\<close> show ?thesis by simp
    qed
  qed
qed

lemma hex_DecodeString_update:
  assumes "hex_DecodeString s = Inr m" and "i < length s"
  shows "(fromHexChar c = fromHexChar (s ! i) \<longrightarrow> hex_DecodeString (s[i := c]) = Inr m) \<and>
         (fromHexChar c \<noteq> fromHexChar (s ! i) \<longrightarrow> hex_DecodeString (s[i := c]) \<noteq> Inr m)"
  using assms
proof (induction s arbitrary: i m rule: hex_DecodeString.induct)
  case 1
  then show ?case by simp
next
  case (2 p)
  then show ?case by (simp split: option.splits)
next
  case (3 p q rest)
  from "3.prems"(1) obtain a b bs where p: "fromHexChar p = Some a" and q: "fromHexChar q = Some b"
    and r: "hex_DecodeString rest = Inr bs" and m: "m = char_of (a * 16 + b) # bs"
    by (auto split: option.splits sum.splits)
  note lt = fromHexChar_less [OF p] fromHexChar_less [OF q]
  show ?case
  proof (cases i)
    case 0
    show ?thesis
    proof (cases "fromHexChar c")
      case None
      with 0 p q r m show ?thesis by simp
    next
      case (Some a')
      from hex_byte_inject [OF fromHexChar_less [OF Some] lt(1) lt(2) lt(2)]
      have "char_of (a' * 16 + b) = char_of (a * 16 + b) \<Longrightarrow> a' = a" by blast
      with 0 p q r m Some show ?thesis by auto
    qed
  next
    case (Suc j)
    show ?thesis
    proof (cases j)
      case 0
      show ?thesis
      proof (cases "fromHexChar c")
        case None
        with 0 Suc p q r m show ?thesis by simp
      next
        case (Some b')
        from hex_byte_inject [OF lt(1) lt(1) fromHexChar_less [OF Some] lt(2)]
        have "char_of (a * 16 + b') = char_of (a * 16 + b) \<Longrightarrow> b' = b" by blast
        with 0 Suc p q r m Some show ?thesis by auto
      qed
    next
      case (Suc k)
      with \<open>i = Suc j\<close> "3.prems"(2) have k: "k < length rest" by simp
      from "3.IH" [OF p q r k] Suc \<open>i = Suc j\<close> p q r m show ?thesis
        by (auto split: sum.splits)
    qed
  qed
qed

lemma corrupt_neq:
  assumes "i < length s" and "b < 8"
  shows "corrupt i b s \<noteq> s"
proof
  let ?n = "of_char (s ! i) :: nat"
  assume "corrupt i b s = s"
  then have "corrupt i b s ! i = s ! i"
    by simp
  with assms(1) have "char_of (flip_bit b ?n) = s ! i"
    by (simp add: corrupt_def flip_char_bit_def)
  then have "take_bit 8 (flip_bit b ?n) = ?n"
    by (simp only: char_of_eq_iff)
  then have "bit (take_bit 8 (flip_bit b ?n)) b = bit ?n b"
    by (simp only:)
  with assms(2) show False
    by (simp add: bit_take_bit_iff bit_flip_bit_iff)
qed


lemma demo_corrupt:
  "corrupt 1 5 ''6b4b'' = ''6B4b''" "corrupt 1 0 ''kK'' = ''kJ''" "corrupt 0 4 ''6b4b'' = ''&b4b''"
  "hex_DecodeString ''&b4b'' = Inl (InvalidByteError CHR ''&'')"
  "is_hex_letter CHR ''6'' = False"
  by code_simp+


lemma case_flip_accepted:
  assumes "hex_DecodeString good = Inr mac" and "i < length good" and "is_hex_letter (good ! i)"
  shows "hex_DecodeString (corrupt i 5 good) = Inr mac"
  using hex_DecodeString_update [OF assms(1,2), of "flip_char_bit 5 (good ! i)"]
    flip_hex_letter [OF assms(3)]
  by (simp add: corrupt_def)

lemma text_flip_rejected:
  assumes "hex_DecodeString good = Inr mac" and "i < length good" and "b < 8"
    and "\<not> (b = 5 \<and> is_hex_letter (good ! i))"
  shows "hex_DecodeString (corrupt i b good) \<noteq> Inr mac"
proof -
  from hex_DecodeString_digits [OF assms(1,2)] obtain v where "fromHexChar (good ! i) = Some v"
    by blast
  from flip_hex_digit [OF this assms(3,4)] hex_DecodeString_update [OF assms(1,2)]
  show ?thesis
    by (simp add: corrupt_def)
qed

subsection \<open>Rejected replies\<close>

text \<open>
  C6, as the code has it. A reply that does not decode from hex, or that decodes to
  bytes other than the expected HMAC, is rejected: after the challenge the server
  writes only the close frame with the protocol-error code and the failure's text
  (never "proceed"), \<^verbatim>\<open>Run\<close> returns the error, and the rest of the inbox is
  never read, so the dispatch loop does not start. Every flip of one bit of the
  expected bytes gives such a reply, and so does every flip of one bit of the text of
  a correct reply, except the flip of bit 5 of a letter digit: that changes the
  letter's case only, and the decoder reads either case.
\<close>

theorem C6_authentication_fails_closed:
  assumes ent: "entropy w = Inr buf"
    and recv: "inbox w = Inr reply # rest"
  shows "(hex_DecodeString reply = Inl err \<longrightarrow>
            DeviceServer_Run lib d key w = Returned (Some err) (rejected err buf rest w)) \<and>
         (hex_DecodeString reply = Inr m \<and> m \<noteq> hmac_sha256 lib key buf \<longrightarrow>
            DeviceServer_Run lib d key w =
            Returned (Some errAuthenticationFailed) (rejected errAuthenticationFailed buf rest w)) \<and>
         (hex_DecodeString reply = Inr (corrupt i b (hmac_sha256 lib key buf)) \<and>
          i < length (hmac_sha256 lib key buf) \<and> b < 8 \<longrightarrow>
            DeviceServer_Run lib d key w =
            Returned (Some errAuthenticationFailed) (rejected errAuthenticationFailed buf rest w)) \<and>
         (hex_DecodeString good = Inr (hmac_sha256 lib key buf) \<and> reply = corrupt j c good \<and>
          j < length good \<and> c < 8 \<and> \<not> (c = 5 \<and> is_hex_letter (good ! j)) \<longrightarrow>
            (\<exists>e. DeviceServer_Run lib d key w = Returned (Some e) (rejected e buf rest w)))"
proof (intro conjI impI; (elim conjE)?)
  assume "hex_DecodeString reply = Inl err"
  then show "DeviceServer_Run lib d key w = Returned (Some err) (rejected err buf rest w)"
    by (intro DeviceServer_Run_reject [OF ent recv]) simp
next
  assume "hex_DecodeString reply = Inr m" "m \<noteq> hmac_sha256 lib key buf"
  then show "DeviceServer_Run lib d key w =
      Returned (Some errAuthenticationFailed) (rejected errAuthenticationFailed buf rest w)"
    by (intro DeviceServer_Run_reject [OF ent recv]) simp
next
  assume "hex_DecodeString reply = Inr (corrupt i b (hmac_sha256 lib key buf))"
    "i < length (hmac_sha256 lib key buf)" "b < 8"
  with corrupt_neq [of i "hmac_sha256 lib key buf" b]
  show "DeviceServer_Run lib d key w =
      Returned (Some errAuthenticationFailed) (rejected errAuthenticationFailed buf rest w)"
    by (intro DeviceServer_Run_reject [OF ent recv]) simp
next
  assume good: "hex_DecodeString good = Inr (hmac_sha256 lib key buf)" "j < length good" "c < 8"
    "\<not> (c = 5 \<and> is_hex_letter (good ! j))" and reply: "reply = corrupt j c good"
  from text_flip_rejected [OF good] reply
  have ne: "hex_DecodeString reply \<noteq> Inr (hmac_sha256 lib key buf)"
    by simp
  show "\<exists>e. DeviceServer_Run lib d key w = Returned (Some e) (rejected e buf rest w)"
  proof (cases "hex_DecodeString reply")
    case (Inl e)
    then have "DeviceServer_Run lib d key w = Returned (Some e) (rejected e buf rest w)"
      by (intro DeviceServer_Run_reject [OF ent recv]) simp
    then show ?thesis ..
  next
    case (Inr m)
    with ne have "DeviceServer_Run lib d key w =
        Returned (Some errAuthenticationFailed) (rejected errAuthenticationFailed buf rest w)"
      by (intro DeviceServer_Run_reject [OF ent recv]) simp
    then show ?thesis ..
  qed
qed

theorem C6_authentication_fails_closed_witness:
  "DeviceServer_Run demo_services good_delegates ''k'' (demo_world [Inr ''zz'', Inr ''update x''] []) =
     Returned (Some (InvalidByteError CHR ''z''))
       ((demo_world [Inr ''update x''] [])
          \<lparr>outbox := [WriteText ''4b'',
             CloseFrame CloseProtocolError (err_Error (InvalidByteError CHR ''z''))]\<rparr>) \<and>
   DeviceServer_Run demo_services good_delegates ''k'' (demo_world [Inr ''6b4'', Inr ''update x''] []) =
     Returned (Some ErrLength)
       ((demo_world [Inr ''update x''] [])
          \<lparr>outbox := [WriteText ''4b'',
             CloseFrame CloseProtocolError ''encoding/hex: odd length hex string'']\<rparr>) \<and>
   corrupt 1 0 ''kK'' = ''kJ'' \<and>
   DeviceServer_Run demo_services good_delegates ''k'' (demo_world [Inr ''6b4a'', Inr ''update x''] []) =
     Returned (Some errAuthenticationFailed)
       ((demo_world [Inr ''update x''] [])
          \<lparr>outbox := [WriteText ''4b'', CloseFrame CloseProtocolError ''authentication failed'']\<rparr>) \<and>
   corrupt 0 4 ''6b4b'' = ''&b4b'' \<and>
   (\<exists>e. DeviceServer_Run demo_services good_delegates ''k''
          (demo_world [Inr ''&b4b'', Inr ''update x''] []) =
        Returned (Some e)
          ((demo_world [Inr ''update x''] [])
             \<lparr>outbox := [WriteText ''4b'', CloseFrame CloseProtocolError (err_Error e)]\<rparr>))"
proof -
  have ent: "entropy (demo_world fs []) = Inr ''K''"
    and recv: "inbox (demo_world (Inr r # fs') []) = Inr r # fs'" for fs fs' r
    by (simp_all add: demo_world_def)
  have mac: "hmac_sha256 demo_services ''k'' ''K'' = ''kK''"
    by (simp add: demo_services_def)
  have rej: "rejected e ''K'' [Inr ''update x''] (demo_world fs []) =
      (demo_world [Inr ''update x''] [])
        \<lparr>outbox := [WriteText ''4b'', CloseFrame CloseProtocolError (err_Error e)]\<rparr>" for e fs
    by (simp add: rejected_def demo_world_def demo_hex del: hex_EncodeToString.simps)
  have C6: "(hex_DecodeString r = Inl err \<longrightarrow>
       DeviceServer_Run demo_services good_delegates ''k'' (demo_world [Inr r, Inr ''update x''] []) =
       Returned (Some err)
         ((demo_world [Inr ''update x''] [])
            \<lparr>outbox := [WriteText ''4b'', CloseFrame CloseProtocolError (err_Error err)]\<rparr>)) \<and>
     (hex_DecodeString r = Inr (corrupt i b ''kK'') \<and> i < length ''kK'' \<and> b < 8 \<longrightarrow>
       DeviceServer_Run demo_services good_delegates ''k'' (demo_world [Inr r, Inr ''update x''] []) =
       Returned (Some errAuthenticationFailed)
         ((demo_world [Inr ''update x''] [])
            \<lparr>outbox := [WriteText ''4b'',
               CloseFrame CloseProtocolError (err_Error errAuthenticationFailed)]\<rparr>)) \<and>
     (hex_DecodeString good = Inr ''kK'' \<and> r = corrupt j c good \<and>
      j < length good \<and> c < 8 \<and> \<not> (c = 5 \<and> is_hex_letter (good ! j)) \<longrightarrow>
       (\<exists>e. DeviceServer_Run demo_services good_delegates ''k''
              (demo_world [Inr r, Inr ''update x''] []) =
            Returned (Some e)
              ((demo_world [Inr ''update x''] [])
                 \<lparr>outbox := [WriteText ''4b'', CloseFrame CloseProtocolError (err_Error e)]\<rparr>)))"
    for r err i b good j c
    using C6_authentication_fails_closed [where lib = demo_services and key = "''k''"
        and d = good_delegates and reply = r and err = err and i = i and b = b and good = good
        and j = j and c = c and rest = "[Inr ''update x'']", OF ent recv, unfolded mac rej]
    by blast
  from C6 [where r = "''zz''" and err = "InvalidByteError CHR ''z''"] demo_hex(4)
  have 1: "DeviceServer_Run demo_services good_delegates ''k''
      (demo_world [Inr ''zz'', Inr ''update x''] []) =
      Returned (Some (InvalidByteError CHR ''z''))
        ((demo_world [Inr ''update x''] [])
           \<lparr>outbox := [WriteText ''4b'',
              CloseFrame CloseProtocolError (err_Error (InvalidByteError CHR ''z''))]\<rparr>)"
    by blast
  from C6 [where r = "''6b4''" and err = ErrLength] demo_hex(5)
  have 2: "DeviceServer_Run demo_services good_delegates ''k''
      (demo_world [Inr ''6b4'', Inr ''update x''] []) =
      Returned (Some ErrLength)
        ((demo_world [Inr ''update x''] [])
           \<lparr>outbox := [WriteText ''4b'', CloseFrame CloseProtocolError (err_Error ErrLength)]\<rparr>)"
    by blast
  have "hex_DecodeString ''6b4a'' = Inr (corrupt 1 0 ''kK'')" "1 < length ''kK''" "(0::nat) < 8"
    by (simp_all add: demo_hex demo_corrupt del: hex_DecodeString.simps One_nat_def)
  with C6 [where r = "''6b4a''" and i = 1 and b = 0]
  have 3: "DeviceServer_Run demo_services good_delegates ''k''
      (demo_world [Inr ''6b4a'', Inr ''update x''] []) =
      Returned (Some errAuthenticationFailed)
        ((demo_world [Inr ''update x''] [])
           \<lparr>outbox := [WriteText ''4b'',
              CloseFrame CloseProtocolError (err_Error errAuthenticationFailed)]\<rparr>)"
    by blast
  have "hex_DecodeString ''6b4b'' = Inr ''kK''" "''&b4b'' = corrupt 0 4 ''6b4b''"
    "0 < length ''6b4b''" "(4::nat) < 8" "\<not> (4 = (5::nat) \<and> is_hex_letter (''6b4b'' ! 0))"
    by (simp_all add: demo_hex demo_corrupt del: hex_DecodeString.simps One_nat_def)
  with C6 [where r = "''&b4b''" and good = "''6b4b''" and j = 0 and c = 4]
  have 4: "\<exists>e. DeviceServer_Run demo_services good_delegates ''k''
      (demo_world [Inr ''&b4b'', Inr ''update x''] []) =
      Returned (Some e)
        ((demo_world [Inr ''update x''] [])
           \<lparr>outbox := [WriteText ''4b'', CloseFrame CloseProtocolError (err_Error e)]\<rparr>)"
    by blast
  from 1 2 3 4 demo_corrupt(2,3) show ?thesis
    by (simp only: err_Error.simps)
qed

text \<open>
  The claim as stated fails on one kind of single-bit corruption: bit 5 of the
  digit \<open>b\<close> of the correct reply flipped gives \<open>B\<close>, the reply decodes to the
  same bytes, and the server writes "proceed" and waits in the dispatch loop.
\<close>

theorem C6_case_flip_counterexample:
  "hex_DecodeString ''6b4b'' = Inr (hmac_sha256 demo_services ''k'' ''K'') \<and>
   corrupt 1 5 ''6b4b'' = ''6B4b'' \<and>
   DeviceServer_Run demo_services good_delegates ''k'' (demo_world [Inr ''6B4b''] []) =
     Blocked ((demo_world [] [])\<lparr>outbox := [WriteText ''4b'', WriteText ''proceed'']\<rparr>)"
proof -
  let ?w = "demo_world [Inr ''6B4b''] [] :: nat world"
  have mac: "hmac_sha256 demo_services ''k'' ''K'' = ''kK''"
    by (simp add: demo_services_def)
  have "authenticate demo_services ''k'' ?w =
      Returned (nth_write_result 1 ?w) (authenticated ''K'' [] ?w)"
    by (rule authenticate_accept [where buf = "''K''" and reply = "''6B4b''"])
       (simp_all add: demo_world_def mac demo_hex del: hex_DecodeString.simps)
  then have "DeviceServer_Run demo_services good_delegates ''k'' ?w =
      Blocked ((demo_world [] [])\<lparr>outbox := [WriteText ''4b'', WriteText ''proceed'']\<rparr>)"
    by (simp add: DeviceServer_Run_def nth_write_result_def authenticated_def demo_hex
        run_simps demo_world_def del: hex_DecodeString.simps hex_EncodeToString.simps)
  moreover have "hex_DecodeString ''6b4b'' = Inr (hmac_sha256 demo_services ''k'' ''K'')"
    by (simp only: mac demo_hex)
  ultimately show ?thesis
    using demo_corrupt(1) by blast
qed

subsection \<open>Connection setup\<close>

lemma selectSubprotocol_none:
  "set clientProtocols \<inter> set protocols = {} \<Longrightarrow> selectSubprotocol protocols clientProtocols = []"
  by (induction protocols) auto

lemma selectSubprotocol_some:
  "\<exists>p \<in> set protocols. p \<in> set clientProtocols \<Longrightarrow>
   selectSubprotocol protocols clientProtocols \<in> set protocols"
  by (induction protocols) auto

text \<open>
  C9. When the handshake goes through and the peer offered none of the supported
  protocols (or none at all), no subprotocol is agreed and setup fails: the server
  writes one close message with the protocol-error code and an empty reason, closes
  the connection, and returns the negotiation error and no \<^verbatim>\<open>apiBase\<close>. When a
  supported protocol was offered, the \<^verbatim>\<open>apiBase\<close> returned has its read limit
  set to 4096 bytes, and so has every \<^verbatim>\<open>apiBase\<close> that setup returns.
\<close>

theorem C9_negotiation:
  "(handshake r = None \<and> set (offered r) \<inter> set protocols = {} \<longrightarrow>
      initAPIBaseFromHTTP r protocols =
        (Inl errProtocolNegotiationFailed,
         Some \<lparr>Subprotocol = [], readLimit = None,
               written = [(CloseMessage, FormatCloseMessage CloseProtocolError [])],
               closed = True\<rparr>)) \<and>
   (handshake r = None \<and> (\<exists>p \<in> set protocols. p \<in> set (offered r)) \<and> [] \<notin> set protocols \<longrightarrow>
      (\<exists>base. initAPIBaseFromHTTP r protocols = (Inr base, Some (socket base)) \<and>
         Subprotocol (socket base) \<in> set protocols \<and>
         readLimit (socket base) = Some 4096 \<and>
         written (socket base) = [] \<and> \<not> closed (socket base))) \<and>
   (initAPIBaseFromHTTP r protocols = (Inr base', conn) \<longrightarrow>
      readLimit (socket base') = Some 4096)"
proof (intro conjI impI; (elim conjE)?)
  assume "handshake r = None" "set (offered r) \<inter> set protocols = {}"
  then show "initAPIBaseFromHTTP r protocols =
      (Inl errProtocolNegotiationFailed,
       Some \<lparr>Subprotocol = [], readLimit = None,
             written = [(CloseMessage, FormatCloseMessage CloseProtocolError [])],
             closed = True\<rparr>)"
    by (simp add: initAPIBaseFromHTTP_def Upgrader_Upgrade_def initAPIBaseFromSocket_def
        selectSubprotocol_none Let_def)
next
  assume ok: "handshake r = None" and some: "\<exists>p \<in> set protocols. p \<in> set (offered r)"
    and ne: "[] \<notin> set protocols"
  let ?p = "selectSubprotocol protocols (offered r)"
  from selectSubprotocol_some [OF some] ne have p: "?p \<in> set protocols" "?p \<noteq> []"
    by auto
  let ?base = "\<lparr>socket = \<lparr>Subprotocol = ?p, readLimit = Some 4096, written = [], closed = False\<rparr>\<rparr>"
  from ok p have "initAPIBaseFromHTTP r protocols = (Inr ?base, Some (socket ?base))"
    by (simp add: initAPIBaseFromHTTP_def Upgrader_Upgrade_def initAPIBaseFromSocket_def Let_def)
  with p(1) show "\<exists>base. initAPIBaseFromHTTP r protocols = (Inr base, Some (socket base)) \<and>
      Subprotocol (socket base) \<in> set protocols \<and> readLimit (socket base) = Some 4096 \<and>
      written (socket base) = [] \<and> \<not> closed (socket base)"
    by (intro exI [of _ ?base]) simp
next
  assume "initAPIBaseFromHTTP r protocols = (Inr base', conn)"
  then show "readLimit (socket base') = Some 4096"
    by (auto simp: initAPIBaseFromHTTP_def initAPIBaseFromSocket_def Let_def
        split: sum.splits if_splits)
qed

theorem C9_negotiation_witness:
  "initAPIBaseFromHTTP \<lparr>handshake = None, offered = [''v1.device.msg'']\<rparr> [deviceAPIProtocolV1] =
     (Inl errProtocolNegotiationFailed,
      Some \<lparr>Subprotocol = [], readLimit = None,
            written = [(8, [CHR 0x03, CHR 0xEA])], closed = True\<rparr>) \<and>
   initAPIBaseFromHTTP \<lparr>handshake = None, offered = []\<rparr> [deviceAPIProtocolV1] =
     (Inl errProtocolNegotiationFailed,
      Some \<lparr>Subprotocol = [], readLimit = None,
            written = [(8, [CHR 0x03, CHR 0xEA])], closed = True\<rparr>) \<and>
   initAPIBaseFromHTTP \<lparr>handshake = None, offered = [''v1.device.msg'', ''v2.device.msg'']\<rparr>
       [deviceAPIProtocolV1] =
     (Inr \<lparr>socket = \<lparr>Subprotocol = ''v2.device.msg'', readLimit = Some 4096,
                       written = [], closed = False\<rparr>\<rparr>,
      Some \<lparr>Subprotocol = ''v2.device.msg'', readLimit = Some 4096, written = [], closed = False\<rparr>) \<and>
   readLimit (socket \<lparr>socket = \<lparr>Subprotocol = ''v2.device.msg'', readLimit = Some 4096,
                                  written = [], closed = False\<rparr>\<rparr>) = Some 4096 \<and>
   (\<exists>base. initAPIBaseFromHTTP \<lparr>handshake = None, offered = [''v2.device.msg'']\<rparr>
              [deviceAPIProtocolV1] = (Inr base, Some (socket base)) \<and>
           Subprotocol (socket base) \<in> set [deviceAPIProtocolV1] \<and>
           readLimit (socket base) = Some 4096 \<and>
           written (socket base) = [] \<and> \<not> closed (socket base))"
proof -
  have close: "(CloseMessage, FormatCloseMessage CloseProtocolError []) = (8, [CHR 0x03, CHR 0xEA])"
    by code_simp
  have 1: "handshake \<lparr>handshake = None, offered = [''v1.device.msg'']\<rparr> = None \<and>
      set (offered \<lparr>handshake = None, offered = [''v1.device.msg'']\<rparr>) \<inter>
      set [deviceAPIProtocolV1] = {}"
    by (simp add: deviceAPIProtocolV1_def)
  have 2: "handshake \<lparr>handshake = None, offered = []\<rparr> = None \<and>
      set (offered \<lparr>handshake = None, offered = []\<rparr>) \<inter> set [deviceAPIProtocolV1] = {}"
    by simp
  have 3: "initAPIBaseFromHTTP \<lparr>handshake = None, offered = [''v1.device.msg'', ''v2.device.msg'']\<rparr>
       [deviceAPIProtocolV1] =
     (Inr \<lparr>socket = \<lparr>Subprotocol = ''v2.device.msg'', readLimit = Some 4096,
                       written = [], closed = False\<rparr>\<rparr>,
      Some \<lparr>Subprotocol = ''v2.device.msg'', readLimit = Some 4096, written = [], closed = False\<rparr>)"
    by (simp add: initAPIBaseFromHTTP_def Upgrader_Upgrade_def initAPIBaseFromSocket_def
        deviceAPIProtocolV1_def Let_def)
  from 1 C9_negotiation [of "\<lparr>handshake = None, offered = [''v1.device.msg'']\<rparr>"
      "[deviceAPIProtocolV1]"]
  have a: "initAPIBaseFromHTTP \<lparr>handshake = None, offered = [''v1.device.msg'']\<rparr>
      [deviceAPIProtocolV1] =
      (Inl errProtocolNegotiationFailed,
       Some \<lparr>Subprotocol = [], readLimit = None,
             written = [(8, [CHR 0x03, CHR 0xEA])], closed = True\<rparr>)"
    unfolding close by blast
  from 2 C9_negotiation [of "\<lparr>handshake = None, offered = []\<rparr>" "[deviceAPIProtocolV1]"]
  have b: "initAPIBaseFromHTTP \<lparr>handshake = None, offered = []\<rparr> [deviceAPIProtocolV1] =
      (Inl errProtocolNegotiationFailed,
       Some \<lparr>Subprotocol = [], readLimit = None,
             written = [(8, [CHR 0x03, CHR 0xEA])], closed = True\<rparr>)"
    unfolding close by blast
  from 3 C9_negotiation [of "\<lparr>handshake = None, offered = [''v1.device.msg'', ''v2.device.msg'']\<rparr>"
      "[deviceAPIProtocolV1]"]
  have c: "readLimit (socket \<lparr>socket = \<lparr>Subprotocol = ''v2.device.msg'', readLimit = Some 4096,
      written = [], closed = False\<rparr>\<rparr>) = Some 4096"
    by blast
  have 4: "handshake \<lparr>handshake = None, offered = [''v2.device.msg'']\<rparr> = None \<and>
      (\<exists>p \<in> set [deviceAPIProtocolV1].
         p \<in> set (offered \<lparr>handshake = None, offered = [''v2.device.msg'']\<rparr>)) \<and>
      [] \<notin> set [deviceAPIProtocolV1]"
    by (simp add: deviceAPIProtocolV1_def)
  from 4 C9_negotiation [of "\<lparr>handshake = None, offered = [''v2.device.msg'']\<rparr>"
      "[deviceAPIProtocolV1]"]
  have d: "\<exists>base. initAPIBaseFromHTTP \<lparr>handshake = None, offered = [''v2.device.msg'']\<rparr>
        [deviceAPIProtocolV1] = (Inr base, Some (socket base)) \<and>
      Subprotocol (socket base) \<in> set [deviceAPIProtocolV1] \<and>
      readLimit (socket base) = Some 4096 \<and>
      written (socket base) = [] \<and> \<not> closed (socket base)"
    by blast
  from a b 3 c d show ?thesis by blast
qed

end
